theory Spec2Isabelle
  imports Complex_Main "HOL-Library.Sublist"
begin

section \<open>Python values\<close>

text \<open>
  A Python \<open>str\<close> is a sequence of Unicode code points, so a string is a list of
  code points here. \<open>ustr\<close> turns an ASCII literal into such a string; the few
  characters of the source beyond ASCII are written by their code point.
\<close>

type_synonym pystr = "nat list"

definition ustr :: "string \<Rightarrow> pystr" where
  "ustr s = map of_char s"

definition en_dash :: pystr where
  "en_dash = [8211]"

text \<open>
  \<open>str.strip()\<close> with no argument removes leading and trailing whitespace, which for
  a \<open>str\<close> is every code point that \<open>str.isspace\<close> accepts.
\<close>

definition isspace :: "nat \<Rightarrow> bool" where
  "isspace c \<longleftrightarrow>
     (9 \<le> c \<and> c \<le> 13) \<or> (28 \<le> c \<and> c \<le> 32) \<or> c = 133 \<or> c = 160 \<or> c = 5760 \<or>
     (8192 \<le> c \<and> c \<le> 8202) \<or> c = 8232 \<or> c = 8233 \<or> c = 8239 \<or> c = 8287 \<or> c = 12288"

definition strip :: "pystr \<Rightarrow> pystr" where
  "strip s = rev (dropWhile isspace (rev (dropWhile isspace s)))"

text \<open>
  The values \<open>json.loads\<close> can return: \<open>None\<close>, \<open>bool\<close>, \<open>int\<close>, \<open>float\<close>
  (the decoder also accepts \<open>NaN\<close> and the infinities), \<open>str\<close>, \<open>list\<close> and \<open>dict\<close>.
  A \<open>dict\<close> is an association list in insertion order, looked up with \<open>map_of\<close>.
\<close>

datatype pyfloat = Finite rat | PosInf | NegInf | NaN

datatype json =
    JNull
  | JBool bool
  | JInt int
  | JFloat pyfloat
  | JStr pystr
  | JArr "json list"
  | JObj "(pystr \<times> json) list"

type_synonym pydict = "(pystr \<times> json) list"

definition dict_get :: "pydict \<Rightarrow> pystr \<Rightarrow> json \<Rightarrow> json" where
  "dict_get d k dflt = (case map_of d k of None \<Rightarrow> dflt | Some v \<Rightarrow> v)"

definition setdefault :: "pydict \<Rightarrow> pystr \<Rightarrow> json \<Rightarrow> pydict" where
  "setdefault d k v = (case map_of d k of None \<Rightarrow> d @ [(k, v)] | Some _ \<Rightarrow> d)"

text \<open>The truth value Python gives a decoded value in \<open>if v:\<close>.\<close>

fun truthy :: "json \<Rightarrow> bool" where
  "truthy JNull = False"
| "truthy (JBool b) = b"
| "truthy (JInt i) = (i \<noteq> 0)"
| "truthy (JFloat f) = (f \<noteq> Finite 0)"
| "truthy (JStr s) = (s \<noteq> [])"
| "truthy (JArr xs) = (xs \<noteq> [])"
| "truthy (JObj d) = (d \<noteq> [])"

datatype error = TransportError | EOFError | JSONDecodeError | AttributeError

text \<open>
  Two functions of the Python library are parameters of the model: \<open>json.loads\<close>, which
  returns the decoded value or raises, and \<open>repr\<close>, which an f-string applies to a
  value that is not a \<open>str\<close> (for the values above \<open>str(v)\<close> is \<open>repr(v)\<close>).
\<close>

record stdlib =
  json_loads :: "pystr \<Rightarrow> error + json"
  py_repr :: "json \<Rightarrow> pystr"

definition format_value :: "stdlib \<Rightarrow> json \<Rightarrow> pystr" where
  "format_value lib v = (case v of JStr s \<Rightarrow> s | _ \<Rightarrow> py_repr lib v)"

section \<open>The terminal and the text-generation port\<close>

text \<open>
  The program reads lines from the terminal and calls the chat-completion API. The world
  holds the lines still to be typed, the answers the API will give to the calls still to
  come, and the calls made so far. \<open>input()\<close> raises \<open>EOFError\<close> when no line is
  left. A call that fails raises; a script of answers that has run out answers like a
  failed call. What \<open>print\<close> writes is not part of the model.
\<close>

datatype reply = Fails | Text pystr

record chat_call =
  call_model :: pystr
  call_messages :: "(pystr \<times> pystr) list"
  call_max_tokens :: int
  call_temperature :: pyfloat

record world =
  stdin :: "pystr list"
  replies :: "reply list"
  calls :: "chat_call list"

definition input :: "world \<Rightarrow> (error + pystr) \<times> world" where
  "input w = (case stdin w of
      [] \<Rightarrow> (Inl EOFError, w)
    | l # ls \<Rightarrow> (Inr l, w\<lparr>stdin := ls\<rparr>))"

definition call_chat ::
  "(pystr \<times> pystr) list \<Rightarrow> int \<Rightarrow> pyfloat \<Rightarrow> world \<Rightarrow> (error + pystr) \<times> world" where
  "call_chat msgs max_tokens temperature w =
     (let sent = w\<lparr>calls := calls w @
            [\<lparr>call_model = ustr ''gpt-3.5-turbo'', call_messages = msgs,
              call_max_tokens = max_tokens, call_temperature = temperature\<rparr>]\<rparr>
      in case replies w of
           [] \<Rightarrow> (Inl TransportError, sent)
         | Fails # rs \<Rightarrow> (Inl TransportError, sent\<lparr>replies := rs\<rparr>)
         | Text t # rs \<Rightarrow> (Inr t, sent\<lparr>replies := rs\<rparr>))"

text \<open>
  A \<open>float\<close> is a double, and a literal denotes the double nearest to it: \<open>0.0\<close>
  is 0, and \<open>0.7\<close> is the fraction below.
\<close>

definition double_0_7 :: pyfloat where
  "double_0_7 = Finite (3152519739159347 / 4503599627370496)"

section \<open>Reading level helpers\<close>

definition level_1_label :: pystr where
  "level_1_label =
     ustr ''very simple language for ages 5'' @ en_dash @ ustr ''6, with short sentences (6'' @
     en_dash @ ustr ''10 words) and very basic everyday vocabulary''"

definition level_2_label :: pystr where
  "level_2_label =
     ustr ''simple language for ages 7'' @ en_dash @ ustr ''8, with mostly short sentences (8'' @
     en_dash @ ustr ''14 words) and easy everyday vocabulary''"

definition level_3_label :: pystr where
  "level_3_label =
     ustr ''clear spoken language for ages 9'' @ en_dash @
     ustr ''10, still gentle, with mostly short sentences and no literary or complex phrasing''"

definition mapping :: "(pystr \<times> pystr) list" where
  "mapping = [(ustr ''1'', level_1_label), (ustr ''2'', level_2_label), (ustr ''3'', level_3_label)]"

text \<open>\<open>mapping.get(level, mapping["2"])\<close>: the default is the entry of key \<open>"2"\<close>.\<close>

definition get_reading_level_label :: "pystr \<Rightarrow> pystr" where
  "get_reading_level_label level =
     (case map_of mapping level of None \<Rightarrow> level_2_label | Some label \<Rightarrow> label)"

definition get_spoken_style_instructions :: "pystr \<Rightarrow> pystr" where
  "get_spoken_style_instructions level =
     (if level = ustr ''1'' then concat
        [ustr ''- Pretend you are talking out loud to a 5-year-old.\<newline>'',
         ustr ''- Use very short, simple sentences (6'', en_dash, ustr ''10 words).\<newline>'',
         ustr ''- Use only familiar everyday words.\<newline>'',
         ustr ''- Keep the tone warm, gentle, and playful.\<newline>'']
      else if level = ustr ''2'' then concat
        [ustr ''- Pretend you are talking to a 7-year-old.\<newline>'',
         ustr ''- Use short sentences (8'', en_dash, ustr ''14 words) and simple vocabulary.\<newline>'',
         ustr ''- Avoid complex clauses.\<newline>'',
         ustr ''- Keep the tone friendly and clear.\<newline>'']
      else concat
        [ustr ''- Pretend you are talking to a 9-year-old.\<newline>'',
         ustr ''- Use mostly short, clear spoken sentences.\<newline>'',
         ustr ''- Avoid overly poetic or complex language.\<newline>'',
         ustr ''- Keep the tone friendly and easy to follow.\<newline>''])"

definition get_length_instructions :: "pystr \<Rightarrow> pystr" where
  "get_length_instructions level =
     (if level = ustr ''1'' then concat
        [ustr ''Formatting and length:\<newline>'',
         ustr ''- Write the story in 3 to 5 paragraphs.\<newline>'',
         ustr ''- Each paragraph should have at least 3 short sentences.\<newline>'',
         ustr ''- Do NOT end the story after only 1 or 2 paragraphs.\<newline>'']
      else if level = ustr ''2'' then concat
        [ustr ''Formatting and length:\<newline>'',
         ustr ''- Write the story in 4 to 6 paragraphs.\<newline>'',
         ustr ''- Each paragraph should have 3'', en_dash, ustr ''5 sentences.\<newline>'',
         ustr ''- Do NOT end the story after only 1 or 2 paragraphs.\<newline>'']
      else concat
        [ustr ''Formatting and length:\<newline>'',
         ustr ''- Write the story in 5 to 7 paragraphs.\<newline>'',
         ustr ''- Each paragraph should have 3'', en_dash, ustr ''6 sentences.\<newline>''])"

section \<open>Story generator agent\<close>

definition generate_story :: "pystr \<Rightarrow> pystr \<Rightarrow> world \<Rightarrow> (error + pystr) \<times> world" where
  "generate_story user_request reading_level w =
     (let level_description = get_reading_level_label reading_level;
          spoken_style = get_spoken_style_instructions reading_level;
          length_instructions = get_length_instructions reading_level;
          system_prompt = concat
            [ustr ''You are a warm, imaginative children's storyteller who tells bedtime '',
             ustr ''stories for kids ages 5 to 10.\<newline>'',
             ustr ''Target style: '', level_description, ustr ''\<newline>'',
             spoken_style,
             ustr ''Story structure (you must follow this):\<newline>'',
             ustr ''1) Beginning:\<newline>'',
             ustr ''   - Introduce the main character with a specific name.\<newline>'',
             ustr ''   - Describe one clear setting (e.g., school hallway, playground, bedroom).\<newline>'',
             ustr ''\<newline>'',
             ustr ''2) Build-up:\<newline>'',
             ustr ''   - Show the main character trying something new or facing a small challenge.\<newline>'',
             ustr ''   - Introduce 1'', en_dash, ustr ''2 supporting characters with names.\<newline>'',
             ustr ''\<newline>'',
             ustr ''3) Specific Conflict (the climax):\<newline>'',
             ustr ''   - Include ONE concrete problem that happens in a clear, visual scene.\<newline>'',
             ustr ''   - Examples: going to the wrong classroom, losing a game,\<newline>'',
             ustr ''     getting into a conflict with another character, misunderstanding instructions.\<newline>'',
             ustr ''   - The problem must actually happen, not just be mentioned as a feeling.\<newline>'',
             ustr ''\<newline>'',
             ustr ''4) Resolution:\<newline>'',
             ustr ''   - Show how the character(s) solve the problem together.\<newline>'',
             ustr ''   - Use simple cause-and-effect (\"because she... then he...\" or \"with help from...\").\<newline>'',
             ustr ''\<newline>'',
             ustr ''5) Cozy Ending:\<newline>'',
             ustr ''   - End with a calm, sleepy moment (bedtime, peaceful thought).\<newline>'',
             ustr ''   - State the moral in ONE short, simple sentence a child can repeat.\<newline>'',
             ustr ''\<newline>'',
             length_instructions,
             ustr ''Additional content rules:\<newline>'',
             ustr ''- The story must be safe and appropriate.\<newline>'',
             ustr ''- No violence, horror, or disturbing content.\<newline>'',
             ustr ''- Gentle conflict only with a warm resolution.\<newline>'',
             ustr ''- Use concrete actions, simple dialogue, and simple sensory details.\<newline>'',
             ustr ''- Include at least two lines of dialogue with quotation marks.\<newline>'',
             ustr ''- At least two characters must have names.\<newline>'',
             ustr ''- The moral should clearly match what happens in the story.\<newline>'',
             ustr ''\<newline>'',
             ustr ''Before you begin writing, silently check:\<newline>'',
             ustr ''- Do you have a named main character?\<newline>'',
             ustr ''- Do you have a specific, concrete problem that happens in a scene?\<newline>'',
             ustr ''- Do you include dialogue in at least two places?\<newline>'',
             ustr ''- Do you have a clear, simple moral at the end?\<newline>'',
             ustr ''Only begin writing once all four conditions are satisfied.\<newline>'',
             ustr ''\<newline>'',
             ustr ''Write the story now. Separate paragraphs with blank lines.\<newline>''];
          user_message = concat
            [ustr ''The user requested this bedtime story:\<newline>\"'', user_request,
             ustr ''\"\<newline>\<newline>'',
             ustr ''Please tell the story now. Return ONLY the story text.''];
          messages =
            [(ustr ''system'', system_prompt),
             (ustr ''user'', user_message)]
      in call_chat messages 1500 double_0_7 w)"

section \<open>Judge agent\<close>

text \<open>
  The body of the \<open>try\<close> block of \<open>judge_story\<close>: \<open>json.loads\<close> may raise, and
  \<open>parsed.setdefault\<close> raises \<open>AttributeError\<close> when the decoded value is not a
  \<open>dict\<close>. On a \<open>dict\<close> the four calls add the keys that are absent and leave the
  values that are present as they are.
\<close>

definition parse_judgement :: "stdlib \<Rightarrow> pystr \<Rightarrow> error + pydict" where
  "parse_judgement lib raw =
     (case json_loads lib raw of
        Inl e \<Rightarrow> Inl e
      | Inr (JObj parsed) \<Rightarrow>
          Inr (setdefault
                (setdefault
                  (setdefault
                    (setdefault parsed (ustr ''score'') (JInt 0))
                    (ustr ''needs_revision'') (JBool False))
                  (ustr ''feedback_for_author'') (JStr []))
                (ustr ''safety_warnings'') (JStr []))
      | Inr _ \<Rightarrow> Inl AttributeError)"

text \<open>The \<open>dict\<close> that the \<open>except Exception\<close> branch returns.\<close>

definition parse_failed_verdict :: pydict where
  "parse_failed_verdict =
     [(ustr ''score'', JInt 0),
      (ustr ''needs_revision'', JBool True),
      (ustr ''feedback_for_author'', JStr (concat
         [ustr ''Could not parse judge response. Recommend clearer plot with a specific conflict, '',
          ustr ''named characters, dialogue, simpler language, and an explicit moral.''])),
      (ustr ''safety_warnings'', JStr (ustr ''Parsing failed.''))]"

text \<open>The \<open>try\<close> statement as a whole: the parsed \<open>dict\<close>, or the fixed one when the body raised.\<close>

definition verdict_of_reply :: "stdlib \<Rightarrow> pystr \<Rightarrow> pydict" where
  "verdict_of_reply lib raw =
     (case parse_judgement lib raw of
        Inr parsed \<Rightarrow> parsed
      | Inl _ \<Rightarrow> parse_failed_verdict)"

definition judge_story ::
  "stdlib \<Rightarrow> pystr \<Rightarrow> pystr \<Rightarrow> pystr \<Rightarrow> world \<Rightarrow> (error + pydict) \<times> world" where
  "judge_story lib user_request story reading_level w =
     (let level_description = get_reading_level_label reading_level;
          spoken_style = get_spoken_style_instructions reading_level;
          system_prompt = concat
            [ustr ''You are a children's book editor reviewing a bedtime story.\<newline>'',
             ustr ''Target reading level: '', level_description, ustr ''\<newline>'',
             spoken_style,
             ustr ''You must evaluate these criteria:\<newline>'',
             ustr ''1) Plot and conflict:\<newline>'',
             ustr ''   - Is there a clear beginning, build-up, specific conflict scene, resolution, and happy ending?\<newline>'',
             ustr ''   - Does ONE concrete problem actually happen in a scene (not just general feelings)?\<newline>'',
             ustr ''\<newline>'',
             ustr ''2) Characters and dialogue:\<newline>'',
             ustr ''   - Is there a named main child character?\<newline>'',
             ustr ''   - Are there supporting named characters (at least one, ideally two)?\<newline>'',
             ustr ''   - Is there dialogue (quoted speech) in at least two places?\<newline>'',
             ustr ''\<newline>'',
             ustr ''3) Moral and tone:\<newline>'',
             ustr ''   - Is there a clear, short moral sentence at or near the end, and does it match the story?\<newline>'',
             ustr ''   - Is the tone gentle, calm, and bedtime-friendly?\<newline>'',
             ustr ''   - Is all content safe for ages 5'', en_dash, ustr ''10?\<newline>'',
             ustr ''\<newline>'',
             ustr ''4) Language simplicity:\<newline>'',
             ustr ''   - Are sentences short and easy to follow for the target reading level?\<newline>'',
             ustr ''   - Are words common and child-friendly (no overly fancy or academic words)?\<newline>'',
             ustr ''\<newline>'',
             ustr ''Return ONLY JSON in this format:\<newline>'',
             ustr ''{\<newline>'',
             ustr ''  \"score\": number,  // 0-10 overall quality\<newline>'',
             ustr ''  \"needs_revision\": boolean,\<newline>'',
             ustr ''  \"feedback_for_author\": string,\<newline>'',
             ustr ''  \"safety_warnings\": string\<newline>'',
             ustr ''}\<newline>'',
             ustr ''In feedback_for_author, explicitly mention if any of the following are missing:\<newline>'',
             ustr ''- specific conflict scene,\<newline>'',
             ustr ''- named main character,\<newline>'',
             ustr ''- dialogue,\<newline>'',
             ustr ''- clear moral sentence,\<newline>'',
             ustr ''- or if the language is too complex.\<newline>''];
          user_message = concat
            [ustr ''User request:\<newline>'', user_request,
             ustr ''\<newline>\<newline>Story:\<newline>'', story];
          messages =
            [(ustr ''system'', system_prompt),
             (ustr ''user'', user_message)]
      in case call_chat messages 800 (Finite 0) w of
           (Inl e, w') \<Rightarrow> (Inl e, w')
         | (Inr raw, w') \<Rightarrow> (Inr (verdict_of_reply lib raw), w'))"

section \<open>Revision agent\<close>

definition revise_story ::
  "stdlib \<Rightarrow> pystr \<Rightarrow> pystr \<Rightarrow> pydict \<Rightarrow> pystr \<Rightarrow> pystr option \<Rightarrow> world
     \<Rightarrow> (error + pystr) \<times> world" where
  "revise_story lib user_request original_story judge_feedback reading_level
       user_modification_instruction w =
     (let level_description = get_reading_level_label reading_level;
          spoken_style = get_spoken_style_instructions reading_level;
          length_instructions = get_length_instructions reading_level;
          system_prompt = concat
            [ustr ''Revise the bedtime story using the editor's feedback and the user's suggestions.\<newline>'',
             ustr ''Keep the reading level: '', level_description, ustr ''\<newline>'',
             spoken_style,
             ustr ''Required structure (do not change this):\<newline>'',
             ustr ''- Named main child character.\<newline>'',
             ustr ''- 1'', en_dash, ustr ''2 supporting named characters.\<newline>'',
             ustr ''- One specific, concrete problem in a scene (the climax).\<newline>'',
             ustr ''- Dialogue in at least two places.\<newline>'',
             ustr ''- Cozy ending with a clear, short moral sentence.\<newline>'',
             length_instructions,
             ustr ''When revising:\<newline>'',
             ustr ''- Strengthen the plot into clear steps (beginning, build-up, conflict, resolution, cozy ending).\<newline>'',
             ustr ''- Simplify language to sound like calm bedtime talk.\<newline>'',
             ustr ''- Use short sentences and common words.\<newline>'',
             ustr ''- Maintain safe, gentle tone.\<newline>'',
             ustr ''Return ONLY the revised story text.\<newline>''];
          extra_instr =
            (case user_modification_instruction of
               None \<Rightarrow> ustr ''No extra user requests.''
             | Some instr \<Rightarrow> if instr = [] then ustr ''No extra user requests.'' else instr);
          user_message = concat
            [ustr ''Original request:\<newline>'', user_request, ustr ''\<newline>\<newline>'',
             ustr ''Original story:\<newline>'', original_story, ustr ''\<newline>\<newline>'',
             ustr ''Editor feedback:\<newline>'',
             format_value lib (dict_get judge_feedback (ustr ''feedback_for_author'') (JStr [])),
             ustr ''\<newline>\<newline>'',
             ustr ''User refinements:\<newline>'', extra_instr, ustr ''\<newline>\<newline>'',
             ustr ''Please revise the story to satisfy all requirements.''];
          messages =
            [(ustr ''system'', system_prompt),
             (ustr ''user'', user_message)]
      in call_chat messages 1500 double_0_7 w)"

section \<open>Generate, judge and (optionally) revise\<close>

definition generate_story_with_judge ::
  "stdlib \<Rightarrow> pystr \<Rightarrow> pystr \<Rightarrow> world \<Rightarrow> (error + pystr \<times> pydict) \<times> world" where
  "generate_story_with_judge lib user_request reading_level w =
     (case generate_story user_request reading_level w of
        (Inl e, w1) \<Rightarrow> (Inl e, w1)
      | (Inr story, w1) \<Rightarrow>
          (case judge_story lib user_request story reading_level w1 of
             (Inl e, w2) \<Rightarrow> (Inl e, w2)
           | (Inr verdict, w2) \<Rightarrow>
               if truthy (dict_get verdict (ustr ''needs_revision'') (JBool False)) then
                 (case revise_story lib user_request story verdict reading_level None w2 of
                    (Inl e, w3) \<Rightarrow> (Inl e, w3)
                  | (Inr story', w3) \<Rightarrow>
                      (case judge_story lib user_request story' reading_level w3 of
                         (Inl e, w4) \<Rightarrow> (Inl e, w4)
                       | (Inr verdict', w4) \<Rightarrow> (Inr (story', verdict'), w4)))
               else (Inr (story, verdict), w2)))"

section \<open>Customization menu\<close>

text \<open>
  \<open>select_reading_level\<close> asks until the line typed, stripped, is one of the three
  levels. Each round reads one line, so the loop ends when the lines do.
\<close>

function select_reading_level :: "world \<Rightarrow> (error + pystr) \<times> world" where
  "select_reading_level w =
     (case input w of
        (Inl e, w') \<Rightarrow> (Inl e, w')
      | (Inr line, w') \<Rightarrow>
          (let lvl = strip line
           in if lvl \<in> {ustr ''1'', ustr ''2'', ustr ''3''} then (Inr lvl, w')
              else select_reading_level w'))"
  by pat_completeness auto
termination
  by (relation "measure (\<lambda>w. length (stdin w))") (auto simp: input_def split: list.splits)

declare select_reading_level.simps [simp del]

text \<open>
  The variables of \<open>customization_menu\<close> that the loop updates: \<open>story\<close>,
  \<open>verdict\<close>, \<open>current_request\<close>, \<open>customizations_used\<close> and \<open>reading_level\<close>.
  The fields \<open>cur_story\<close>, \<open>cur_verdict\<close> and \<open>cur_level\<close> hold \<open>story\<close>,
  \<open>verdict\<close> and \<open>reading_level\<close>, names that the agents use for their parameters.
\<close>

record session =
  cur_story :: pystr
  cur_verdict :: pydict
  current_request :: pystr
  customizations_used :: int
  cur_level :: pystr

text \<open>
  One pass through the body of \<open>while True\<close>, from the menu to the \<open>return\<close>, the
  \<open>continue\<close>, the end of the body or an exception that leaves the function.
\<close>

datatype step = Return pystr pydict | Continue session | Raised error

definition menu_iteration :: "stdlib \<Rightarrow> int \<Rightarrow> session \<Rightarrow> world \<Rightarrow> step \<times> world" where
  "menu_iteration lib max_customizations s w =
     (let remaining = max_customizations - customizations_used s
      in if remaining \<le> 0 then (Return (cur_story s) (cur_verdict s), w)
         else
           (case input w of
              (Inl e, w1) \<Rightarrow> (Raised e, w1)
            | (Inr line, w1) \<Rightarrow>
                (let choice = strip line
                 in if choice = ustr ''1'' then (Return (cur_story s) (cur_verdict s), w1)
                    else if choice \<notin> {ustr ''2'', ustr ''3'', ustr ''4''} then (Continue s, w1)
                    else
                      (let s1 = s\<lparr>customizations_used := customizations_used s + 1\<rparr>
                       in if choice = ustr ''2'' then
                            (case input w1 of
                               (Inl e, w2) \<Rightarrow> (Raised e, w2)
                             | (Inr line2, w2) \<Rightarrow>
                                 (let mod_text = strip line2
                                  in if mod_text = [] then
                                       (Continue (s1\<lparr>customizations_used :=
                                                       customizations_used s1 - 1\<rparr>), w2)
                                     else
                                       (case revise_story lib (current_request s1) (cur_story s1)
                                               (cur_verdict s1) (cur_level s1) (Some mod_text) w2 of
                                          (Inl e, w3) \<Rightarrow> (Raised e, w3)
                                        | (Inr story, w3) \<Rightarrow>
                                            (case judge_story lib (current_request s1) story
                                                    (cur_level s1) w3 of
                                               (Inl e, w4) \<Rightarrow> (Raised e, w4)
                                             | (Inr verdict, w4) \<Rightarrow>
                                                 (Continue (s1\<lparr>cur_story := story,
                                                               cur_verdict := verdict\<rparr>), w4)))))
                          else if choice = ustr ''3'' then
                            (case select_reading_level w1 of
                               (Inl e, w2) \<Rightarrow> (Raised e, w2)
                             | (Inr reading_level, w2) \<Rightarrow>
                                 (case generate_story_with_judge lib (current_request s1)
                                         reading_level w2 of
                                    (Inl e, w3) \<Rightarrow> (Raised e, w3)
                                  | (Inr (story, verdict), w3) \<Rightarrow>
                                      (Continue (s1\<lparr>cur_level := reading_level, cur_story := story,
                                                    cur_verdict := verdict\<rparr>), w3)))
                          else
                            (case input w1 of
                               (Inl e, w2) \<Rightarrow> (Raised e, w2)
                             | (Inr line2, w2) \<Rightarrow>
                                 (let new_req = strip line2
                                  in if new_req = [] then
                                       (Continue (s1\<lparr>customizations_used :=
                                                       customizations_used s1 - 1\<rparr>), w2)
                                     else
                                       (case generate_story_with_judge lib new_req
                                               (cur_level s1) w2 of
                                          (Inl e, w3) \<Rightarrow> (Raised e, w3)
                                        | (Inr (story, verdict), w3) \<Rightarrow>
                                            (Continue (s1\<lparr>current_request := new_req,
                                                          cur_story := story,
                                                          cur_verdict := verdict\<rparr>), w3))))))))"

text \<open>
  No agent reads the terminal, and every pass through the menu that goes round again has
  read at least one line: this is why the loop ends on every finite supply of lines.
\<close>

lemma input_stdin:
  "input w = (Inr l, w') \<Longrightarrow> stdin w = l # stdin w' \<and> replies w' = replies w \<and> calls w' = calls w"
  by (auto simp: input_def split: list.splits)

lemma call_chat_stdin: "stdin (snd (call_chat msgs mt tp w)) = stdin w"
  by (simp add: call_chat_def Let_def split: list.splits reply.splits)

lemma generate_story_stdin: "stdin (snd (generate_story user_request reading_level w)) = stdin w"
  unfolding generate_story_def Let_def by (rule call_chat_stdin)

lemma revise_story_stdin:
  "stdin (snd (revise_story lib user_request original_story judge_feedback reading_level instr w)) = stdin w"
  unfolding revise_story_def Let_def by (rule call_chat_stdin)

lemma judge_story_stdin: "stdin (snd (judge_story lib user_request story reading_level w)) = stdin w"
proof -
  have "stdin (snd (case call_chat msgs 800 (Finite 0) w of
           (Inl e, w') \<Rightarrow> (Inl e, w')
         | (Inr raw, w') \<Rightarrow> (Inr (verdict_of_reply lib raw), w'))) = stdin w" for msgs
    using call_chat_stdin [of msgs 800 "Finite 0" w]
    by (auto split: prod.splits sum.splits)
  then show ?thesis
    unfolding judge_story_def Let_def .
qed

lemma generate_story_with_judge_stdin:
  "stdin (snd (generate_story_with_judge lib user_request reading_level w)) = stdin w"
proof -
  have g: "generate_story a b c = (r, w') \<Longrightarrow> stdin w' = stdin c" for a b c r w'
    using generate_story_stdin [of a b c] by simp
  have j: "judge_story l a b c d = (r, w') \<Longrightarrow> stdin w' = stdin d" for l a b c d r w'
    using judge_story_stdin [of l a b c d] by simp
  have r: "revise_story l a b c d e f = (r, w') \<Longrightarrow> stdin w' = stdin f" for l a b c d e f r w'
    using revise_story_stdin [of l a b c d e f] by simp
  show ?thesis
    unfolding generate_story_with_judge_def
    by (auto split: prod.splits sum.splits dest!: g j r)
qed

lemma select_reading_level_stdin:
  "length (stdin (snd (select_reading_level w))) \<le> length (stdin w)"
proof (induction w rule: select_reading_level.induct)
  case (1 w)
  show ?case
  proof (cases "input w")
    case (Pair r w')
    show ?thesis
    proof (cases r)
      case (Inl e)
      with Pair show ?thesis
        by (subst select_reading_level.simps) (auto simp: input_def split: list.splits)
    next
      case (Inr line)
      with Pair have len: "length (stdin w') < length (stdin w)"
        by (auto dest: input_stdin)
      show ?thesis
      proof (cases "strip line \<in> {ustr ''1'', ustr ''2'', ustr ''3''}")
        case True
        with Pair Inr len show ?thesis
          by (subst select_reading_level.simps) (simp add: Let_def)
      next
        case False
        with "1.IH" [of r w' line "strip line"] Pair Inr
        have "length (stdin (snd (select_reading_level w'))) \<le> length (stdin w')"
          by simp
        with Pair Inr False len show ?thesis
          by (subst select_reading_level.simps) (simp add: Let_def)
      qed
    qed
  qed
qed

lemma menu_iteration_consumes:
  assumes "menu_iteration lib max_customizations s w = (Continue s', w')"
  shows "length (stdin w') < length (stdin w)"
proof -
  have p: "generate_story_with_judge l a b c = (r, v) \<Longrightarrow> stdin v = stdin c" for l a b c r v
    using generate_story_with_judge_stdin [of l a b c] by simp
  have j: "judge_story l a b c d = (r, v) \<Longrightarrow> stdin v = stdin d" for l a b c d r v
    using judge_story_stdin [of l a b c d] by simp
  have r: "revise_story l a b c d e f = (r, v) \<Longrightarrow> stdin v = stdin f" for l a b c d e f r v
    using revise_story_stdin [of l a b c d e f] by simp
  have q: "select_reading_level c = (r, v) \<Longrightarrow> length (stdin v) \<le> length (stdin c)" for c r v
    using select_reading_level_stdin [of c] by simp
  from assms show ?thesis
    unfolding menu_iteration_def Let_def
    by (auto split: if_splits prod.splits sum.splits dest!: p j r q input_stdin)
qed

text \<open>
  The \<open>while True\<close> loop: it returns the story and the verdict, or an exception leaves
  it, or it goes round again with the updated variables.
\<close>

function customization_loop ::
  "stdlib \<Rightarrow> int \<Rightarrow> session \<Rightarrow> world \<Rightarrow> (error + pystr \<times> pydict) \<times> world" where
  "customization_loop lib max_customizations s w =
     (case menu_iteration lib max_customizations s w of
        (Return story verdict, w') \<Rightarrow> (Inr (story, verdict), w')
      | (Raised e, w') \<Rightarrow> (Inl e, w')
      | (Continue s', w') \<Rightarrow> customization_loop lib max_customizations s' w')"
  by pat_completeness auto
termination
  by (relation "measure (\<lambda>(lib, max_customizations, s, w). length (stdin w))")
    (auto dest: menu_iteration_consumes [OF sym])

declare customization_loop.simps [simp del]

text \<open>
  The variables as \<open>customization_menu\<close> sets them before the loop.
  \<open>show_judge_info\<close> only selects what is printed.
\<close>

definition initial_session :: "pystr \<Rightarrow> pystr \<Rightarrow> pydict \<Rightarrow> pystr \<Rightarrow> session" where
  "initial_session initial_request initial_story initial_verdict reading_level =
     \<lparr>cur_story = initial_story, cur_verdict = initial_verdict,
      current_request = initial_request, customizations_used = 0,
      cur_level = reading_level\<rparr>"



fun loop_state ::
  "nat \<Rightarrow> stdlib \<Rightarrow> int \<Rightarrow> session \<Rightarrow> world \<Rightarrow> (session \<times> world) option" where
  "loop_state 0 lib max_customizations s w = Some (s, w)"
| "loop_state (Suc k) lib max_customizations s w =
     (case menu_iteration lib max_customizations s w of
        (Continue s', w') \<Rightarrow> loop_state k lib max_customizations s' w'
      | (Return story verdict, w') \<Rightarrow> None
      | (Raised e, w') \<Rightarrow> None)"



section \<open>Observations used in the statements\<close>

text \<open>
  The call of the reviser is the one whose system prompt opens with the first words of the
  prompt of \<open>revise_story\<close>; \<open>reviser_calls\<close> counts these calls in the log.
\<close>

definition is_reviser_call :: "chat_call \<Rightarrow> bool" where
  "is_reviser_call c =
     (case call_messages c of
        [] \<Rightarrow> False
      | (role, content) # _ \<Rightarrow> prefix (ustr ''Revise the bedtime story'') content)"

definition reviser_calls :: "world \<Rightarrow> nat" where
  "reviser_calls w = length (filter is_reviser_call (calls w))"

text \<open>
  The calls an agent makes do not depend on the world it runs in: \<open>requests_of\<close> reads
  them off a run in the empty world. \<open>user_message_of\<close> is the content of the second
  message of a call, the one of role \<open>user\<close>.
\<close>

definition requests_of :: "(world \<Rightarrow> 'a \<times> world) \<Rightarrow> chat_call list" where
  "requests_of agent = calls (snd (agent \<lparr>stdin = [], replies = [], calls = []\<rparr>))"

definition user_message_of :: "chat_call \<Rightarrow> pystr" where
  "user_message_of c =
     (case call_messages c of
        [system_message, (role, content)] \<Rightarrow> content
      | _ \<Rightarrow> [])"

text \<open>\<open>parsed.setdefault\<close> exists when the decoded value is a \<open>dict\<close>.\<close>

fun is_dict :: "json \<Rightarrow> bool" where
  "is_dict (JObj d) = True"
| "is_dict _ = False"

text \<open>
  The Verdict as the specification describes it: a score that is a number in \<open>[0,10]\<close>,
  a boolean \<open>needs_revision\<close>, and text in \<open>feedback_for_author\<close> and
  \<open>safety_warnings\<close>. This is the structure the judge is asked to answer in.
\<close>

fun is_score :: "json \<Rightarrow> bool" where
  "is_score (JInt i) = (0 \<le> i \<and> i \<le> 10)"
| "is_score (JFloat (Finite q)) = (0 \<le> q \<and> q \<le> 10)"
| "is_score _ = False"

fun is_boolean :: "json \<Rightarrow> bool" where
  "is_boolean (JBool b) = True"
| "is_boolean _ = False"

fun is_text :: "json \<Rightarrow> bool" where
  "is_text (JStr t) = True"
| "is_text _ = False"

definition spec_verdict :: "pydict \<Rightarrow> bool" where
  "spec_verdict v \<longleftrightarrow>
     (case map_of v (ustr ''score'') of None \<Rightarrow> False | Some x \<Rightarrow> is_score x) \<and>
     (case map_of v (ustr ''needs_revision'') of None \<Rightarrow> False | Some x \<Rightarrow> is_boolean x) \<and>
     (case map_of v (ustr ''feedback_for_author'') of None \<Rightarrow> False | Some x \<Rightarrow> is_text x) \<and>
     (case map_of v (ustr ''safety_warnings'') of None \<Rightarrow> False | Some x \<Rightarrow> is_text x)"

section \<open>A decoder and a session for the examples\<close>

text \<open>
  The instances below run the program on concrete answers of the API. \<open>sample_loads\<close>
  gives, for the answers used there, the value that \<open>json.loads\<close> returns; any other text
  is taken as text that is not JSON. \<open>sample_repr\<close> is \<open>repr\<close> on the values without
  digits or nesting; the examples format strings only.
\<close>

definition good_reply :: pystr where
  "good_reply = ustr ''{\"score\": 9, \"needs_revision\": false, \"feedback_for_author\": \"Lovely.\", \"safety_warnings\": \"\"}''"

definition weak_reply :: pystr where
  "weak_reply = ustr ''{\"score\": 4, \"needs_revision\": true, \"feedback_for_author\": \"Add dialogue.\", \"safety_warnings\": \"\"}''"

definition sample_verdict :: pydict where
  "sample_verdict =
     [(ustr ''score'', JInt 9), (ustr ''needs_revision'', JBool False),
      (ustr ''feedback_for_author'', JStr (ustr ''Lovely.'')),
      (ustr ''safety_warnings'', JStr [])]"

definition weak_verdict :: pydict where
  "weak_verdict =
     [(ustr ''score'', JInt 4), (ustr ''needs_revision'', JBool True),
      (ustr ''feedback_for_author'', JStr (ustr ''Add dialogue.'')),
      (ustr ''safety_warnings'', JStr [])]"

definition sample_loads :: "pystr \<Rightarrow> error + json" where
  "sample_loads raw =
     (if raw = good_reply then Inr (JObj sample_verdict)
      else if raw = weak_reply then Inr (JObj weak_verdict)
      else if raw = ustr ''{\"score\": 11}'' then Inr (JObj [(ustr ''score'', JInt 11)])
      else if raw = ustr ''{}'' then Inr (JObj [])
      else if raw = ustr ''[1, 2]'' then Inr (JArr [JInt 1, JInt 2])
      else Inl JSONDecodeError)"

fun sample_repr :: "json \<Rightarrow> pystr" where
  "sample_repr JNull = ustr ''None''"
| "sample_repr (JBool True) = ustr ''True''"
| "sample_repr (JBool False) = ustr ''False''"
| "sample_repr _ = []"

definition sample_lib :: stdlib where
  "sample_lib = \<lparr>json_loads = sample_loads, py_repr = sample_repr\<rparr>"

definition sample_request :: pystr where
  "sample_request = ustr ''a story about a shy fox''"

definition sample_story :: pystr where
  "sample_story = ustr ''Once there was a fox.''"

definition sample_session :: session where
  "sample_session = initial_session sample_request sample_story sample_verdict (ustr ''2'')"

definition sample_world :: "pystr list \<Rightarrow> reply list \<Rightarrow> world" where
  "sample_world lines answers = \<lparr>stdin = lines, replies = answers, calls = []\<rparr>"

text \<open>The requester asks for a dragon; the reviser answers, and the judge is content.\<close>

definition dragon_world :: world where
  "dragon_world =
     sample_world [ustr ''2'', ustr ''add a dragon'']
       [Text (ustr ''Fay met a dragon.''), Text good_reply]"

section \<open>What the agents return\<close>

text \<open>
  The result of an agent depends on the world only through the next answer of the API,
  and each agent uses up exactly one answer.
\<close>

lemma call_chat_fst:
  "fst (call_chat msgs mt tp w) = (case replies w of Text t # rs \<Rightarrow> Inr t | _ \<Rightarrow> Inl TransportError)"
  by (simp add: call_chat_def Let_def split: list.splits reply.splits)

lemma call_chat_replies: "replies (snd (call_chat msgs mt tp w)) = tl (replies w)"
  by (simp add: call_chat_def Let_def split: list.splits reply.splits)

lemma generate_story_fst:
  "fst (generate_story user_request reading_level w) =
     (case replies w of Text t # rs \<Rightarrow> Inr t | _ \<Rightarrow> Inl TransportError)"
  unfolding generate_story_def Let_def by (rule call_chat_fst)

lemma generate_story_replies:
  "replies (snd (generate_story user_request reading_level w)) = tl (replies w)"
  unfolding generate_story_def Let_def by (rule call_chat_replies)

lemma revise_story_fst:
  "fst (revise_story lib user_request original_story judge_feedback reading_level instr w) =
     (case replies w of Text t # rs \<Rightarrow> Inr t | _ \<Rightarrow> Inl TransportError)"
  unfolding revise_story_def Let_def by (rule call_chat_fst)

lemma revise_story_replies:
  "replies (snd (revise_story lib user_request original_story judge_feedback reading_level instr w))
     = tl (replies w)"
  unfolding revise_story_def Let_def by (rule call_chat_replies)

lemma judge_story_fst:
  "fst (judge_story lib user_request story reading_level w) =
     (case replies w of
        Text raw # rs \<Rightarrow> Inr (verdict_of_reply lib raw)
      | _ \<Rightarrow> Inl TransportError)"
proof -
  have "fst (case call_chat msgs 800 (Finite 0) w of
           (Inl e, w') \<Rightarrow> (Inl e, w')
         | (Inr raw, w') \<Rightarrow> (Inr (verdict_of_reply lib raw), w')) =
     (case replies w of
        Text raw # rs \<Rightarrow> Inr (verdict_of_reply lib raw)
      | _ \<Rightarrow> Inl TransportError)" for msgs
    using call_chat_fst [of msgs 800 "Finite 0" w]
    by (auto split: prod.splits sum.splits list.splits reply.splits)
  then show ?thesis
    unfolding judge_story_def Let_def .
qed

lemma judge_story_replies:
  "replies (snd (judge_story lib user_request story reading_level w)) = tl (replies w)"
proof -
  have "replies (snd (case call_chat msgs 800 (Finite 0) w of
           (Inl e, w') \<Rightarrow> (Inl e, w')
         | (Inr raw, w') \<Rightarrow> (Inr (verdict_of_reply lib raw), w'))) = tl (replies w)" for msgs
    using call_chat_replies [of msgs 800 "Finite 0" w]
    by (auto split: prod.splits sum.splits)
  then show ?thesis
    unfolding judge_story_def Let_def .
qed

text \<open>Facts about the strings of the examples.\<close>

lemma ustr_choice_neq [simp]:
  "ustr ''1'' \<noteq> ustr ''2''" "ustr ''1'' \<noteq> ustr ''3''" "ustr ''1'' \<noteq> ustr ''4''"
  "ustr ''2'' \<noteq> ustr ''1''" "ustr ''2'' \<noteq> ustr ''3''" "ustr ''2'' \<noteq> ustr ''4''"
  "ustr ''3'' \<noteq> ustr ''1''" "ustr ''3'' \<noteq> ustr ''2''" "ustr ''3'' \<noteq> ustr ''4''"
  "ustr ''4'' \<noteq> ustr ''1''" "ustr ''4'' \<noteq> ustr ''2''" "ustr ''4'' \<noteq> ustr ''3''"
  by (simp_all add: ustr_def)

lemma strip_samples:
  "strip (ustr ''2'') = ustr ''2''"
  "strip (ustr ''add a dragon'') = ustr ''add a dragon''"
  by (simp_all add: strip_def ustr_def isspace_def)

lemma sample_text_nonempty: "ustr ''add a dragon'' \<noteq> []"
  by (simp add: ustr_def)

lemma verdict_of_good_reply: "verdict_of_reply sample_lib good_reply = sample_verdict"
  by (simp add: verdict_of_reply_def parse_judgement_def sample_lib_def sample_loads_def
      sample_verdict_def setdefault_def ustr_def)

section \<open>Properties of the customization loop\<close>

text \<open>The four ways a pass can go without a call to the API.\<close>

lemma menu_iteration_exhausted:
  "max_customizations - customizations_used s \<le> 0 \<Longrightarrow>
   menu_iteration lib max_customizations s w = (Return (cur_story s) (cur_verdict s), w)"
  by (simp add: menu_iteration_def)

lemma menu_iteration_accept:
  "0 < max_customizations - customizations_used s \<Longrightarrow> stdin w = line # rest \<Longrightarrow>
   strip line = ustr ''1'' \<Longrightarrow>
   menu_iteration lib max_customizations s w =
     (Return (cur_story s) (cur_verdict s), w\<lparr>stdin := rest\<rparr>)"
  by (simp add: menu_iteration_def input_def Let_def)

lemma menu_iteration_invalid:
  "0 < max_customizations - customizations_used s \<Longrightarrow> stdin w = line # rest \<Longrightarrow>
   strip line \<notin> {ustr ''1'', ustr ''2'', ustr ''3'', ustr ''4''} \<Longrightarrow>
   menu_iteration lib max_customizations s w = (Continue s, w\<lparr>stdin := rest\<rparr>)"
  by (simp add: menu_iteration_def input_def Let_def)

lemma menu_iteration_cancel:
  "0 < max_customizations - customizations_used s \<Longrightarrow> stdin w = line # line2 # rest \<Longrightarrow>
   strip line = ustr ''2'' \<or> strip line = ustr ''4'' \<Longrightarrow> strip line2 = [] \<Longrightarrow>
   menu_iteration lib max_customizations s w = (Continue s, w\<lparr>stdin := rest\<rparr>)"
  by (auto simp add: menu_iteration_def input_def Let_def)

text \<open>A pass that goes round again had budget left and spent at most one customization.\<close>

lemma menu_iteration_budget:
  assumes "menu_iteration lib max_customizations s w = (Continue s', w')"
  shows "0 < max_customizations - customizations_used s
         \<and> (customizations_used s' = customizations_used s
            \<or> customizations_used s' = customizations_used s + 1)"
  using assms unfolding menu_iteration_def Let_def
  by (auto split: if_splits prod.splits sum.splits)


lemma loop_state_budget:
  assumes "loop_state k lib max_customizations s0 w0 = Some (s, w)"
    and "0 \<le> customizations_used s0" and "customizations_used s0 \<le> max_customizations"
  shows "0 \<le> customizations_used s \<and> customizations_used s \<le> max_customizations"
  using assms
proof (induction k arbitrary: s0 w0)
  case 0
  then show ?case by simp
next
  case (Suc k)
  from Suc.prems(1) obtain s1 w1
    where step: "menu_iteration lib max_customizations s0 w0 = (Continue s1, w1)"
      and rest: "loop_state k lib max_customizations s1 w1 = Some (s, w)"
    by (auto split: prod.splits step.splits)
  from menu_iteration_budget [OF step] Suc.prems(2,3)
  have "0 \<le> customizations_used s1" and "customizations_used s1 \<le> max_customizations"
    by auto
  with Suc.IH [OF rest] show ?case .
qed



text \<open>The first pass of the dragon example: one customization is spent.\<close>

lemma dragon_step:
  "fst (menu_iteration sample_lib 1 sample_session dragon_world)
   = Continue (sample_session\<lparr>customizations_used := 1, cur_story := ustr ''Fay met a dragon.'',
        cur_verdict := sample_verdict\<rparr>)"
  by (simp add: menu_iteration_def Let_def split_beta input_def sample_world_def dragon_world_def
      sample_session_def initial_session_def strip_samples sample_text_nonempty
      revise_story_fst revise_story_replies judge_story_fst verdict_of_good_reply)


text \<open>
  Claim C2. With a budget \<open>max_customizations\<close> that is not negative, every state in
  which the loop of \<open>customization_menu\<close> starts a pass, that is every menu presentation,
  and with it the state in which the loop returns, has
  \<open>0 \<le> customizations_used \<le> max_customizations\<close>, whatever is typed and whatever the
  API answers. When the pass goes on to ask the requester, the counter after the
  increment of a choice 2 to 4 is within the budget as well.
\<close>

theorem budget_invariant:
  assumes "0 \<le> max_customizations"
    and "loop_state k lib max_customizations
           (initial_session initial_request initial_story initial_verdict reading_level) w0
         = Some (s, w)"
  shows "0 \<le> customizations_used s \<and> customizations_used s \<le> max_customizations
         \<and> (0 < max_customizations - customizations_used s
              \<longrightarrow> customizations_used s + 1 \<le> max_customizations)"
proof -
  let ?s0 = "initial_session initial_request initial_story initial_verdict reading_level"
  from assms(1) have lo: "0 \<le> customizations_used ?s0"
    and hi: "customizations_used ?s0 \<le> max_customizations"
    by (simp_all add: initial_session_def)
  have "0 \<le> customizations_used s \<and> customizations_used s \<le> max_customizations"
    using assms(2) lo hi by (rule loop_state_budget)
  then show ?thesis
    by auto
qed

theorem budget_invariant_witness:
  "0 \<le> (1::int)
   \<and> loop_state (Suc 0) sample_lib 1
        (initial_session sample_request sample_story sample_verdict (ustr ''2'')) dragon_world
      = Some (sample_session\<lparr>customizations_used := 1, cur_story := ustr ''Fay met a dragon.'',
                cur_verdict := sample_verdict\<rparr>,
              snd (menu_iteration sample_lib 1 sample_session dragon_world))
   \<and> 0 \<le> customizations_used (sample_session\<lparr>customizations_used := 1,
        cur_story := ustr ''Fay met a dragon.'', cur_verdict := sample_verdict\<rparr>)
   \<and> customizations_used (sample_session\<lparr>customizations_used := 1,
        cur_story := ustr ''Fay met a dragon.'', cur_verdict := sample_verdict\<rparr>) \<le> 1"
proof -
  have h1: "0 \<le> (1::int)"
    by simp
  have h2: "loop_state (Suc 0) sample_lib 1
        (initial_session sample_request sample_story sample_verdict (ustr ''2'')) dragon_world
      = Some (sample_session\<lparr>customizations_used := 1, cur_story := ustr ''Fay met a dragon.'',
                cur_verdict := sample_verdict\<rparr>,
              snd (menu_iteration sample_lib 1 sample_session dragon_world))"
    using dragon_step by (simp add: split_beta sample_session_def)
  from budget_invariant [OF h1 h2] h1 h2 show ?thesis
    by simp
qed

text \<open>
  Claim C5. When \<open>remaining = max_customizations - customizations_used\<close> is at most 0 at
  the top of the loop, the pass returns the current story and verdict at once: the world is
  the one it started in, so no line is read and no call is made. The whole loop then returns
  the same pair.
\<close>

theorem exhausted_budget_returns:
  assumes "max_customizations - customizations_used s \<le> 0"
  shows "menu_iteration lib max_customizations s w = (Return (cur_story s) (cur_verdict s), w)
         \<and> customization_loop lib max_customizations s w = (Inr (cur_story s, cur_verdict s), w)"
  using menu_iteration_exhausted [OF assms, of lib w]
  by (simp add: customization_loop.simps)

theorem exhausted_budget_returns_witness:
  "(3::int) - customizations_used (sample_session\<lparr>customizations_used := 3\<rparr>) \<le> 0
   \<and> customization_loop sample_lib 3 (sample_session\<lparr>customizations_used := 3\<rparr>)
        (sample_world [ustr ''2'', ustr ''more dragons''] [])
     = (Inr (cur_story sample_session, cur_verdict sample_session),
        sample_world [ustr ''2'', ustr ''more dragons''] [])"
  using exhausted_budget_returns
    [of 3 "sample_session\<lparr>customizations_used := 3\<rparr>" sample_lib
        "sample_world [ustr ''2'', ustr ''more dragons''] []"]
  by simp

text \<open>
  Claim C7. When the requester is asked for a choice and the line typed, stripped, is
  \<open>1\<close> (Accept), the pass returns the current story and verdict as they are. The world
  afterwards differs from the one before only by the line that was read: the answers still
  to come and the calls made are the same, so no call to the API is made. The whole loop
  returns the same pair.
\<close>

theorem accept_returns_current:
  assumes "0 < max_customizations - customizations_used s"
    and "stdin w = line # rest"
    and "strip line = ustr ''1''"
  shows "menu_iteration lib max_customizations s w =
           (Return (cur_story s) (cur_verdict s), w\<lparr>stdin := rest\<rparr>)
         \<and> customization_loop lib max_customizations s w =
           (Inr (cur_story s, cur_verdict s), w\<lparr>stdin := rest\<rparr>)"
  using menu_iteration_accept [OF assms, of lib]
  by (simp add: customization_loop.simps)

theorem accept_returns_current_witness:
  "0 < 3 - customizations_used sample_session
   \<and> stdin (sample_world [ustr '' 1 '', ustr ''2''] []) = ustr '' 1 '' # [ustr ''2'']
   \<and> strip (ustr '' 1 '') = ustr ''1''
   \<and> customization_loop sample_lib 3 sample_session (sample_world [ustr '' 1 '', ustr ''2''] [])
       = (Inr (cur_story sample_session, cur_verdict sample_session), sample_world [ustr ''2''] [])"
proof -
  have h1: "0 < 3 - customizations_used sample_session"
    by (simp add: sample_session_def initial_session_def)
  have h2: "stdin (sample_world [ustr '' 1 '', ustr ''2''] []) = ustr '' 1 '' # [ustr ''2'']"
    by (simp add: sample_world_def)
  have h3: "strip (ustr '' 1 '') = ustr ''1''"
    by (simp add: strip_def ustr_def isspace_def)
  from accept_returns_current [OF h1 h2 h3, of sample_lib] h1 h2 h3 show ?thesis
    by (simp add: sample_world_def)
qed

text \<open>
  Claim C8. When the requester is asked for a choice and the line typed, stripped, is none
  of \<open>1\<close>, \<open>2\<close>, \<open>3\<close>, \<open>4\<close>, the pass goes round again with every variable
  (\<open>customizations_used\<close>, story, verdict, request, reading level) as it was, and the
  world differs only by the line that was read. The loop then behaves as it would have
  without that line: the menu is presented again.
\<close>

theorem invalid_choice_rejected:
  assumes "0 < max_customizations - customizations_used s"
    and "stdin w = line # rest"
    and "strip line \<notin> {ustr ''1'', ustr ''2'', ustr ''3'', ustr ''4''}"
  shows "menu_iteration lib max_customizations s w = (Continue s, w\<lparr>stdin := rest\<rparr>)
         \<and> customization_loop lib max_customizations s w =
           customization_loop lib max_customizations s (w\<lparr>stdin := rest\<rparr>)"
  using menu_iteration_invalid [OF assms, of lib]
  by (simp add: customization_loop.simps [of lib max_customizations s w])

theorem invalid_choice_rejected_witness:
  "0 < 3 - customizations_used sample_session
   \<and> stdin (sample_world [ustr ''5'', ustr ''1''] []) = ustr ''5'' # [ustr ''1'']
   \<and> strip (ustr ''5'') \<notin> {ustr ''1'', ustr ''2'', ustr ''3'', ustr ''4''}
   \<and> menu_iteration sample_lib 3 sample_session (sample_world [ustr ''5'', ustr ''1''] [])
       = (Continue sample_session, sample_world [ustr ''1''] [])"
proof -
  have h1: "0 < 3 - customizations_used sample_session"
    by (simp add: sample_session_def initial_session_def)
  have h2: "stdin (sample_world [ustr ''5'', ustr ''1''] []) = ustr ''5'' # [ustr ''1'']"
    by (simp add: sample_world_def)
  have h3: "strip (ustr ''5'') \<notin> {ustr ''1'', ustr ''2'', ustr ''3'', ustr ''4''}"
    by (simp add: strip_def ustr_def isspace_def)
  from invalid_choice_rejected [OF h1 h2 h3, of sample_lib] h1 h2 h3 show ?thesis
    by (simp add: sample_world_def)
qed

text \<open>
  Claim C4. After the choice \<open>2\<close> (suggest edits) or \<open>4\<close> (change the original
  request), a line that is empty once stripped cancels the action: the pass goes round
  again with every variable as it was (the counter is incremented and decremented back),
  the world differs only by the two lines read, so no call to the API is made, and the loop
  continues from the same state.
\<close>

theorem empty_text_cancels:
  assumes "0 < max_customizations - customizations_used s"
    and "stdin w = line # line2 # rest"
    and "strip line = ustr ''2'' \<or> strip line = ustr ''4''"
    and "strip line2 = []"
  shows "menu_iteration lib max_customizations s w = (Continue s, w\<lparr>stdin := rest\<rparr>)
         \<and> customization_loop lib max_customizations s w =
           customization_loop lib max_customizations s (w\<lparr>stdin := rest\<rparr>)"
  using menu_iteration_cancel [OF assms, of lib]
  by (simp add: customization_loop.simps [of lib max_customizations s w])

theorem empty_text_cancels_witness:
  "0 < 3 - customizations_used sample_session
   \<and> stdin (sample_world [ustr ''4'', ustr ''  '', ustr ''1''] []) = ustr ''4'' # ustr ''  '' # [ustr ''1'']
   \<and> (strip (ustr ''4'') = ustr ''2'' \<or> strip (ustr ''4'') = ustr ''4'')
   \<and> strip (ustr ''  '') = []
   \<and> menu_iteration sample_lib 3 sample_session (sample_world [ustr ''4'', ustr ''  '', ustr ''1''] [])
       = (Continue sample_session, sample_world [ustr ''1''] [])"
proof -
  have h1: "0 < 3 - customizations_used sample_session"
    by (simp add: sample_session_def initial_session_def)
  have h2: "stdin (sample_world [ustr ''4'', ustr ''  '', ustr ''1''] [])
      = ustr ''4'' # ustr ''  '' # [ustr ''1'']"
    by (simp add: sample_world_def)
  have h3: "strip (ustr ''4'') = ustr ''2'' \<or> strip (ustr ''4'') = ustr ''4''"
    by (simp add: strip_def ustr_def isspace_def)
  have h4: "strip (ustr ''  '') = []"
    by (simp add: strip_def ustr_def isspace_def)
  from empty_text_cancels [OF h1 h2 h3 h4, of sample_lib] h1 h2 h3 h4 show ?thesis
    by (simp add: sample_world_def)
qed



section \<open>Properties of the pipeline\<close>

text \<open>Which calls are calls of the reviser, and how many calls each agent makes.\<close>

lemma call_chat_reviser_calls:
  "reviser_calls (snd (call_chat ((role, content) # others) mt tp w)) =
     reviser_calls w + (if prefix (ustr ''Revise the bedtime story'') content then 1 else 0)"
  by (simp add: call_chat_def Let_def reviser_calls_def is_reviser_call_def
      split: list.splits reply.splits)

lemma storyteller_prompt_head:
  "\<not> prefix (ustr ''Revise the bedtime story'')
       (concat (ustr ''You are a warm, imaginative children's storyteller who tells bedtime '' # tl_parts))"
  by (simp add: ustr_def)

lemma judge_prompt_head:
  "\<not> prefix (ustr ''Revise the bedtime story'')
       (concat (ustr ''You are a children's book editor reviewing a bedtime story.\<newline>'' # tl_parts))"
  by (simp add: ustr_def)

lemma reviser_prompt_head:
  "prefix (ustr ''Revise the bedtime story'')
       (concat (ustr ''Revise the bedtime story using the editor's feedback and the user's suggestions.\<newline>'' # tl_parts))"
  by (simp add: ustr_def)

lemma generate_story_reviser_calls:
  "reviser_calls (snd (generate_story user_request reading_level w)) = reviser_calls w"
  unfolding generate_story_def Let_def call_chat_reviser_calls
  by (simp only: storyteller_prompt_head if_False add_0_right)

lemma revise_story_reviser_calls:
  "reviser_calls (snd (revise_story lib user_request original_story judge_feedback reading_level instr w))
     = reviser_calls w + 1"
  unfolding revise_story_def Let_def call_chat_reviser_calls
  by (simp only: reviser_prompt_head if_True)

lemma snd_judge_case:
  "snd (case call_chat msgs mt tp w of
           (Inl e, w') \<Rightarrow> (Inl e, w')
         | (Inr raw, w') \<Rightarrow> (Inr (f raw), w')) = snd (call_chat msgs mt tp w)"
  by (auto split: prod.splits sum.splits)

lemma judge_story_reviser_calls:
  "reviser_calls (snd (judge_story lib user_request story reading_level w)) = reviser_calls w"
  unfolding judge_story_def Let_def snd_judge_case call_chat_reviser_calls
  by (simp only: judge_prompt_head if_False add_0_right)

lemma generate_story_with_judge_reviser_calls:
  "reviser_calls (snd (generate_story_with_judge lib user_request reading_level w))
     \<le> reviser_calls w + 1"
proof -
  have g: "generate_story a b c = (r, w') \<Longrightarrow> reviser_calls w' = reviser_calls c" for a b c r w'
    using generate_story_reviser_calls [of a b c] by simp
  have j: "judge_story l a b c d = (r, w') \<Longrightarrow> reviser_calls w' = reviser_calls d"
    for l a b c d r w'
    using judge_story_reviser_calls [of l a b c d] by simp
  have r: "revise_story l a b c d e f = (r, w') \<Longrightarrow> reviser_calls w' = reviser_calls f + 1"
    for l a b c d e f r w'
    using revise_story_reviser_calls [of l a b c d e f] by simp
  show ?thesis
    unfolding generate_story_with_judge_def
    by (auto split: prod.splits sum.splits dest!: g j r)
qed

lemma call_chat_count: "length (calls (snd (call_chat msgs mt tp w))) = length (calls w) + 1"
  by (simp add: call_chat_def Let_def split: list.splits reply.splits)

lemma generate_story_count:
  "length (calls (snd (generate_story user_request reading_level w))) = length (calls w) + 1"
  unfolding generate_story_def Let_def by (rule call_chat_count)

lemma revise_story_count:
  "length (calls (snd (revise_story lib user_request original_story judge_feedback reading_level
      instr w))) = length (calls w) + 1"
  unfolding revise_story_def Let_def by (rule call_chat_count)

lemma judge_story_count:
  "length (calls (snd (judge_story lib user_request story reading_level w))) = length (calls w) + 1"
  unfolding judge_story_def Let_def snd_judge_case by (rule call_chat_count)

text \<open>The requests of the agents, and what their user messages say.\<close>

lemma call_chat_calls:
  "calls (snd (call_chat msgs mt tp w)) =
     calls w @ [\<lparr>call_model = ustr ''gpt-3.5-turbo'', call_messages = msgs,
                 call_max_tokens = mt, call_temperature = tp\<rparr>]"
  by (simp add: call_chat_def Let_def split: list.splits reply.splits)

lemma call_chat_requests:
  "calls (snd (call_chat msgs mt tp w)) = calls w @ requests_of (call_chat msgs mt tp)"
  by (simp add: requests_of_def call_chat_calls)

lemma generate_story_calls:
  "calls (snd (generate_story user_request reading_level w))
     = calls w @ requests_of (generate_story user_request reading_level)"
  unfolding requests_of_def generate_story_def Let_def call_chat_calls
  by (simp only: world.select_convs append_Nil)

lemma revise_story_calls:
  "calls (snd (revise_story lib user_request original_story judge_feedback reading_level instr w))
     = calls w @ requests_of
         (revise_story lib user_request original_story judge_feedback reading_level instr)"
  unfolding requests_of_def revise_story_def Let_def call_chat_calls
  by (simp only: world.select_convs append_Nil)

lemma judge_story_calls:
  "calls (snd (judge_story lib user_request story reading_level w))
     = calls w @ requests_of (judge_story lib user_request story reading_level)"
  unfolding requests_of_def judge_story_def Let_def snd_judge_case call_chat_calls
  by (simp only: world.select_convs append_Nil)

lemma generate_story_user_message:
  "map user_message_of (requests_of (generate_story user_request reading_level)) =
     [concat
        [ustr ''The user requested this bedtime story:\<newline>\"'', user_request,
         ustr ''\"\<newline>\<newline>'',
         ustr ''Please tell the story now. Return ONLY the story text.'']]"
  unfolding requests_of_def generate_story_def Let_def call_chat_calls
  by (simp only: world.select_convs append_Nil list.map user_message_of_def
      chat_call.select_convs list.case prod.case)

lemma judge_story_user_message:
  "map user_message_of (requests_of (judge_story lib user_request story reading_level)) =
     [concat
        [ustr ''User request:\<newline>'', user_request,
         ustr ''\<newline>\<newline>Story:\<newline>'', story]]"
  unfolding requests_of_def judge_story_def Let_def snd_judge_case call_chat_calls
  by (simp only: world.select_convs append_Nil list.map user_message_of_def
      chat_call.select_convs list.case prod.case)

lemma revise_story_user_message:
  "map user_message_of
     (requests_of (revise_story lib user_request original_story judge_feedback reading_level None)) =
     [concat
        [ustr ''Original request:\<newline>'', user_request, ustr ''\<newline>\<newline>'',
         ustr ''Original story:\<newline>'', original_story, ustr ''\<newline>\<newline>'',
         ustr ''Editor feedback:\<newline>'',
         format_value lib (dict_get judge_feedback (ustr ''feedback_for_author'') (JStr [])),
         ustr ''\<newline>\<newline>'',
         ustr ''User refinements:\<newline>'', ustr ''No extra user requests.'',
         ustr ''\<newline>\<newline>'',
         ustr ''Please revise the story to satisfy all requirements.'']]"
  unfolding requests_of_def revise_story_def Let_def call_chat_calls
  by (simp only: world.select_convs append_Nil list.map user_message_of_def
      chat_call.select_convs list.case prod.case option.case)

lemma generate_story_not_reviser:
  "map is_reviser_call (requests_of (generate_story user_request reading_level)) = [False]"
  unfolding requests_of_def generate_story_def Let_def call_chat_calls
  by (simp only: world.select_convs append_Nil list.map is_reviser_call_def
      chat_call.select_convs list.case prod.case storyteller_prompt_head)

lemma judge_story_not_reviser:
  "map is_reviser_call (requests_of (judge_story lib user_request story reading_level)) = [False]"
  unfolding requests_of_def judge_story_def Let_def snd_judge_case call_chat_calls
  by (simp only: world.select_convs append_Nil list.map is_reviser_call_def
      chat_call.select_convs list.case prod.case judge_prompt_head)

lemma revise_story_is_reviser:
  "map is_reviser_call
     (requests_of (revise_story lib user_request original_story judge_feedback reading_level instr))
   = [True]"
  unfolding requests_of_def revise_story_def Let_def call_chat_calls
  by (simp only: world.select_convs append_Nil list.map is_reviser_call_def
      chat_call.select_convs list.case prod.case reviser_prompt_head)

text \<open>The two runs of the pipeline in which no call fails.\<close>

lemma pipeline_without_revision:
  assumes "replies w = Text story # Text raw # rest"
    and "\<not> truthy (dict_get (verdict_of_reply lib raw) (ustr ''needs_revision'') (JBool False))"
  shows "fst (generate_story_with_judge lib user_request reading_level w)
           = Inr (story, verdict_of_reply lib raw)"
    and "replies (snd (generate_story_with_judge lib user_request reading_level w)) = rest"
    and "reviser_calls (snd (generate_story_with_judge lib user_request reading_level w))
           = reviser_calls w"
    and "calls (snd (generate_story_with_judge lib user_request reading_level w))
           = calls w @ requests_of (generate_story user_request reading_level)
               @ requests_of (judge_story lib user_request story reading_level)"
  using assms
  by (simp_all add: generate_story_with_judge_def split_beta generate_story_fst
      generate_story_replies judge_story_fst judge_story_replies
      generate_story_reviser_calls judge_story_reviser_calls
      generate_story_calls judge_story_calls)

lemma pipeline_with_revision:
  assumes "replies w = Text story # Text raw # Text story' # Text raw' # rest"
    and "truthy (dict_get (verdict_of_reply lib raw) (ustr ''needs_revision'') (JBool False))"
  shows "fst (generate_story_with_judge lib user_request reading_level w)
           = Inr (story', verdict_of_reply lib raw')"
    and "replies (snd (generate_story_with_judge lib user_request reading_level w)) = rest"
    and "reviser_calls (snd (generate_story_with_judge lib user_request reading_level w))
           = reviser_calls w + 1"
    and "calls (snd (generate_story_with_judge lib user_request reading_level w))
           = calls w @ requests_of (generate_story user_request reading_level)
               @ requests_of (judge_story lib user_request story reading_level)
               @ requests_of (revise_story lib user_request story (verdict_of_reply lib raw)
                   reading_level None)
               @ requests_of (judge_story lib user_request story' reading_level)"
  using assms
  by (simp_all add: generate_story_with_judge_def split_beta generate_story_fst
      generate_story_replies judge_story_fst judge_story_replies
      revise_story_fst revise_story_replies
      generate_story_reviser_calls judge_story_reviser_calls revise_story_reviser_calls
      generate_story_calls judge_story_calls revise_story_calls)

lemma verdict_of_weak_reply: "verdict_of_reply sample_lib weak_reply = weak_verdict"
  by (simp add: verdict_of_reply_def parse_judgement_def sample_lib_def sample_loads_def
      weak_verdict_def setdefault_def ustr_def good_reply_def weak_reply_def)

lemma weak_verdict_needs_revision:
  "truthy (dict_get weak_verdict (ustr ''needs_revision'') (JBool False))"
  by (simp add: weak_verdict_def dict_get_def ustr_def)

text \<open>
  Claim C3. \<open>generate_story_with_judge\<close> calls the reviser at most once, whatever
  the API answers and also when a call fails. When no call fails: if \<open>needs_revision\<close>
  of the first verdict is false in Python's sense, the calls are those of the storyteller
  and of the judge of the generated story, and that story is returned with its verdict; if
  it is true, the calls are those of the storyteller, of the judge of the generated story,
  of the reviser, once, with the generated story, the first verdict and no user
  instruction, and of the judge of the revised story, and the revised story is returned
  with the verdict of that last call, whatever it says about \<open>needs_revision\<close>. The user
  messages show what the reviser and the second judge are given.
\<close>

theorem single_revision:
  fixes lib user_request reading_level w
  defines "result \<equiv> generate_story_with_judge lib user_request reading_level w"
  shows "reviser_calls (snd result) \<le> reviser_calls w + 1
   \<and> (replies w = Text story # Text raw # rest
        \<and> \<not> truthy (dict_get (verdict_of_reply lib raw) (ustr ''needs_revision'') (JBool False))
      \<longrightarrow> fst result = Inr (story, verdict_of_reply lib raw)
          \<and> replies (snd result) = rest
          \<and> reviser_calls (snd result) = reviser_calls w
          \<and> length (calls (snd result)) = length (calls w) + 2
          \<and> calls (snd result)
            = calls w @ requests_of (generate_story user_request reading_level)
                @ requests_of (judge_story lib user_request story reading_level))
   \<and> (replies w = Text story # Text raw # Text story' # Text raw' # rest'
        \<and> truthy (dict_get (verdict_of_reply lib raw) (ustr ''needs_revision'') (JBool False))
      \<longrightarrow> fst result = Inr (story', verdict_of_reply lib raw')
          \<and> replies (snd result) = rest'
          \<and> reviser_calls (snd result) = reviser_calls w + 1
          \<and> length (calls (snd result)) = length (calls w) + 4
          \<and> calls (snd result)
            = calls w @ requests_of (generate_story user_request reading_level)
                @ requests_of (judge_story lib user_request story reading_level)
                @ requests_of (revise_story lib user_request story (verdict_of_reply lib raw)
                    reading_level None)
                @ requests_of (judge_story lib user_request story' reading_level))
   \<and> map is_reviser_call (requests_of (generate_story user_request reading_level)) = [False]
   \<and> map is_reviser_call (requests_of (judge_story lib user_request story reading_level))
       = [False]
   \<and> map is_reviser_call (requests_of (revise_story lib user_request story
         (verdict_of_reply lib raw) reading_level None)) = [True]
   \<and> map is_reviser_call (requests_of (judge_story lib user_request story' reading_level))
       = [False]
   \<and> map user_message_of (requests_of (judge_story lib user_request story reading_level)) =
       [concat
          [ustr ''User request:\<newline>'', user_request,
           ustr ''\<newline>\<newline>Story:\<newline>'', story]]
   \<and> map user_message_of (requests_of (revise_story lib user_request story
         (verdict_of_reply lib raw) reading_level None)) =
       [concat
          [ustr ''Original request:\<newline>'', user_request, ustr ''\<newline>\<newline>'',
           ustr ''Original story:\<newline>'', story, ustr ''\<newline>\<newline>'',
           ustr ''Editor feedback:\<newline>'',
           format_value lib
             (dict_get (verdict_of_reply lib raw) (ustr ''feedback_for_author'') (JStr [])),
           ustr ''\<newline>\<newline>'',
           ustr ''User refinements:\<newline>'', ustr ''No extra user requests.'',
           ustr ''\<newline>\<newline>'',
           ustr ''Please revise the story to satisfy all requirements.'']]
   \<and> map user_message_of (requests_of (judge_story lib user_request story' reading_level)) =
       [concat
          [ustr ''User request:\<newline>'', user_request,
           ustr ''\<newline>\<newline>Story:\<newline>'', story']]"
proof -
  have bound: "reviser_calls (snd result) \<le> reviser_calls w + 1"
    unfolding result_def by (rule generate_story_with_judge_reviser_calls)
  have two: "length (calls (snd result)) = length (calls w) + 2"
    if "replies w = Text story # Text raw # rest"
      and "\<not> truthy (dict_get (verdict_of_reply lib raw) (ustr ''needs_revision'') (JBool False))"
    using that unfolding result_def
    by (simp add: generate_story_with_judge_def split_beta generate_story_fst
        generate_story_replies judge_story_fst generate_story_count judge_story_count)
  have four: "length (calls (snd result)) = length (calls w) + 4"
    if "replies w = Text story # Text raw # Text story' # Text raw' # rest'"
      and "truthy (dict_get (verdict_of_reply lib raw) (ustr ''needs_revision'') (JBool False))"
    using that unfolding result_def
    by (simp add: generate_story_with_judge_def split_beta generate_story_fst
        generate_story_replies judge_story_fst judge_story_replies revise_story_fst
        revise_story_replies generate_story_count judge_story_count revise_story_count)
  note plain = pipeline_without_revision
    [of w story raw rest lib user_request reading_level, folded result_def]
  note revised = pipeline_with_revision
    [of w story raw story' raw' rest' lib user_request reading_level, folded result_def]
  note flags = generate_story_not_reviser [of user_request reading_level]
    judge_story_not_reviser [of lib user_request story reading_level]
    revise_story_is_reviser
      [of lib user_request story "verdict_of_reply lib raw" reading_level None]
    judge_story_not_reviser [of lib user_request story' reading_level]
  note said = judge_story_user_message [of lib user_request story reading_level]
    revise_story_user_message [of lib user_request story "verdict_of_reply lib raw" reading_level]
    judge_story_user_message [of lib user_request story' reading_level]
  from bound two four plain revised flags said show ?thesis
    by blast
qed

theorem single_revision_witness:
  "replies (sample_world []
       [Text sample_story, Text weak_reply, Text (ustr ''Fay said hello.''), Text weak_reply])
     = Text sample_story # Text weak_reply # Text (ustr ''Fay said hello.'') # Text weak_reply # []
   \<and> truthy (dict_get (verdict_of_reply sample_lib weak_reply) (ustr ''needs_revision'') (JBool False))
   \<and> fst (generate_story_with_judge sample_lib sample_request (ustr ''2'')
        (sample_world []
          [Text sample_story, Text weak_reply, Text (ustr ''Fay said hello.''), Text weak_reply]))
     = Inr (ustr ''Fay said hello.'', weak_verdict)
   \<and> truthy (dict_get weak_verdict (ustr ''needs_revision'') (JBool False))
   \<and> reviser_calls (snd (generate_story_with_judge sample_lib sample_request (ustr ''2'')
        (sample_world []
          [Text sample_story, Text weak_reply, Text (ustr ''Fay said hello.''), Text weak_reply])))
     = 1
   \<and> map is_reviser_call (calls (snd (generate_story_with_judge sample_lib sample_request
        (ustr ''2'')
        (sample_world []
          [Text sample_story, Text weak_reply, Text (ustr ''Fay said hello.''), Text weak_reply]))))
     = [False, False, True, False]
   \<and> map user_message_of (calls (snd (generate_story_with_judge sample_lib sample_request
        (ustr ''2'')
        (sample_world []
          [Text sample_story, Text weak_reply, Text (ustr ''Fay said hello.''), Text weak_reply]))))
     = [concat
          [ustr ''The user requested this bedtime story:\<newline>\"'', sample_request,
           ustr ''\"\<newline>\<newline>'',
           ustr ''Please tell the story now. Return ONLY the story text.''],
        concat
          [ustr ''User request:\<newline>'', sample_request,
           ustr ''\<newline>\<newline>Story:\<newline>'', sample_story],
        concat
          [ustr ''Original request:\<newline>'', sample_request, ustr ''\<newline>\<newline>'',
           ustr ''Original story:\<newline>'', sample_story, ustr ''\<newline>\<newline>'',
           ustr ''Editor feedback:\<newline>'', ustr ''Add dialogue.'',
           ustr ''\<newline>\<newline>'',
           ustr ''User refinements:\<newline>'', ustr ''No extra user requests.'',
           ustr ''\<newline>\<newline>'',
           ustr ''Please revise the story to satisfy all requirements.''],
        concat
          [ustr ''User request:\<newline>'', sample_request,
           ustr ''\<newline>\<newline>Story:\<newline>'', ustr ''Fay said hello.'']]"
proof -
  let ?w = "sample_world []
       [Text sample_story, Text weak_reply, Text (ustr ''Fay said hello.''), Text weak_reply]"
  have h1: "replies ?w
     = Text sample_story # Text weak_reply # Text (ustr ''Fay said hello.'') # Text weak_reply # []"
    by (simp add: sample_world_def)
  have h2: "truthy (dict_get (verdict_of_reply sample_lib weak_reply) (ustr ''needs_revision'')
      (JBool False))"
    by (simp add: verdict_of_weak_reply weak_verdict_needs_revision)
  have none: "reviser_calls ?w = 0" "calls ?w = []"
    by (simp_all add: reviser_calls_def sample_world_def)
  have feedback: "format_value sample_lib
      (dict_get weak_verdict (ustr ''feedback_for_author'') (JStr [])) = ustr ''Add dialogue.''"
    by (simp add: format_value_def dict_get_def weak_verdict_def ustr_def)
  from single_revision [of sample_lib sample_request "ustr ''2''" ?w sample_story weak_reply "[]"
      "ustr ''Fay said hello.''" weak_reply "[]"] h1 h2
  have run: "fst (generate_story_with_judge sample_lib sample_request (ustr ''2'') ?w)
        = Inr (ustr ''Fay said hello.'', verdict_of_reply sample_lib weak_reply)"
    and count: "reviser_calls (snd (generate_story_with_judge sample_lib sample_request
        (ustr ''2'') ?w)) = reviser_calls ?w + 1"
    and log: "calls (snd (generate_story_with_judge sample_lib sample_request (ustr ''2'') ?w))
        = calls ?w @ requests_of (generate_story sample_request (ustr ''2''))
            @ requests_of (judge_story sample_lib sample_request sample_story (ustr ''2''))
            @ requests_of (revise_story sample_lib sample_request sample_story
                (verdict_of_reply sample_lib weak_reply) (ustr ''2'') None)
            @ requests_of (judge_story sample_lib sample_request (ustr ''Fay said hello.'')
                (ustr ''2''))"
    and flags: "map is_reviser_call (requests_of (generate_story sample_request (ustr ''2'')))
        = [False]"
      "map is_reviser_call
         (requests_of (judge_story sample_lib sample_request sample_story (ustr ''2''))) = [False]"
      "map is_reviser_call (requests_of (revise_story sample_lib sample_request sample_story
          (verdict_of_reply sample_lib weak_reply) (ustr ''2'') None)) = [True]"
      "map is_reviser_call (requests_of (judge_story sample_lib sample_request
          (ustr ''Fay said hello.'') (ustr ''2''))) = [False]"
    and said: "map user_message_of
         (requests_of (judge_story sample_lib sample_request sample_story (ustr ''2''))) =
       [concat
          [ustr ''User request:\<newline>'', sample_request,
           ustr ''\<newline>\<newline>Story:\<newline>'', sample_story]]"
      "map user_message_of (requests_of (revise_story sample_lib sample_request sample_story
          (verdict_of_reply sample_lib weak_reply) (ustr ''2'') None)) =
       [concat
          [ustr ''Original request:\<newline>'', sample_request, ustr ''\<newline>\<newline>'',
           ustr ''Original story:\<newline>'', sample_story, ustr ''\<newline>\<newline>'',
           ustr ''Editor feedback:\<newline>'',
           format_value sample_lib
             (dict_get (verdict_of_reply sample_lib weak_reply) (ustr ''feedback_for_author'')
                (JStr [])),
           ustr ''\<newline>\<newline>'',
           ustr ''User refinements:\<newline>'', ustr ''No extra user requests.'',
           ustr ''\<newline>\<newline>'',
           ustr ''Please revise the story to satisfy all requirements.'']]"
      "map user_message_of (requests_of (judge_story sample_lib sample_request
          (ustr ''Fay said hello.'') (ustr ''2''))) =
       [concat
          [ustr ''User request:\<newline>'', sample_request,
           ustr ''\<newline>\<newline>Story:\<newline>'', ustr ''Fay said hello.'']]"
    by blast+
  have flag_list: "map is_reviser_call
      (calls (snd (generate_story_with_judge sample_lib sample_request (ustr ''2'') ?w)))
      = [False, False, True, False]"
    by (simp only: log none append_Nil map_append flags append_Cons)
  have said_list: "map user_message_of
      (calls (snd (generate_story_with_judge sample_lib sample_request (ustr ''2'') ?w)))
      = [concat
          [ustr ''The user requested this bedtime story:\<newline>\"'', sample_request,
           ustr ''\"\<newline>\<newline>'',
           ustr ''Please tell the story now. Return ONLY the story text.''],
        concat
          [ustr ''User request:\<newline>'', sample_request,
           ustr ''\<newline>\<newline>Story:\<newline>'', sample_story],
        concat
          [ustr ''Original request:\<newline>'', sample_request, ustr ''\<newline>\<newline>'',
           ustr ''Original story:\<newline>'', sample_story, ustr ''\<newline>\<newline>'',
           ustr ''Editor feedback:\<newline>'', ustr ''Add dialogue.'',
           ustr ''\<newline>\<newline>'',
           ustr ''User refinements:\<newline>'', ustr ''No extra user requests.'',
           ustr ''\<newline>\<newline>'',
           ustr ''Please revise the story to satisfy all requirements.''],
        concat
          [ustr ''User request:\<newline>'', sample_request,
           ustr ''\<newline>\<newline>Story:\<newline>'', ustr ''Fay said hello.'']]"
    by (simp only: log none append_Nil map_append append_Cons generate_story_user_message
        said [unfolded verdict_of_weak_reply feedback] verdict_of_weak_reply)
  from h1 h2 run count none(1) flag_list said_list weak_verdict_needs_revision show ?thesis
    by (simp only: verdict_of_weak_reply) simp
qed

section \<open>Properties of the judge\<close>

text \<open>What the \<open>try\<close> statement makes of an answer.\<close>

lemma parse_judgement_raises:
  "(case json_loads lib raw of Inl e \<Rightarrow> True | Inr v \<Rightarrow> \<not> is_dict v) \<Longrightarrow>
   verdict_of_reply lib raw = parse_failed_verdict"
proof (cases "json_loads lib raw")
  case (Inl e)
  then show ?thesis
    by (simp add: verdict_of_reply_def parse_judgement_def)
next
  case (Inr v)
  assume "case json_loads lib raw of Inl e \<Rightarrow> True | Inr v \<Rightarrow> \<not> is_dict v"
  with Inr show ?thesis
    by (cases v) (simp_all add: verdict_of_reply_def parse_judgement_def)
qed

lemma verdict_keys_distinct:
  "ustr ''score'' \<noteq> ustr ''needs_revision''" "ustr ''score'' \<noteq> ustr ''feedback_for_author''"
  "ustr ''score'' \<noteq> ustr ''safety_warnings''" "ustr ''needs_revision'' \<noteq> ustr ''score''"
  "ustr ''needs_revision'' \<noteq> ustr ''feedback_for_author''"
  "ustr ''needs_revision'' \<noteq> ustr ''safety_warnings''"
  "ustr ''feedback_for_author'' \<noteq> ustr ''score''"
  "ustr ''feedback_for_author'' \<noteq> ustr ''needs_revision''"
  "ustr ''feedback_for_author'' \<noteq> ustr ''safety_warnings''"
  "ustr ''safety_warnings'' \<noteq> ustr ''score''"
  "ustr ''safety_warnings'' \<noteq> ustr ''needs_revision''"
  "ustr ''safety_warnings'' \<noteq> ustr ''feedback_for_author''"
  by (simp_all add: ustr_def)

lemma parse_failed_verdict_fields:
  "dict_get parse_failed_verdict (ustr ''score'') JNull = JInt 0"
  "dict_get parse_failed_verdict (ustr ''needs_revision'') JNull = JBool True"
  "dict_get parse_failed_verdict (ustr ''feedback_for_author'') JNull = JStr (concat
     [ustr ''Could not parse judge response. Recommend clearer plot with a specific conflict, '',
      ustr ''named characters, dialogue, simpler language, and an explicit moral.''])"
  "dict_get parse_failed_verdict (ustr ''safety_warnings'') JNull = JStr (ustr ''Parsing failed.'')"
  by (simp_all add: parse_failed_verdict_def dict_get_def verdict_keys_distinct)

lemma map_of_setdefault:
  "map_of (setdefault d k v) k' =
     (case map_of d k' of Some x \<Rightarrow> Some x | None \<Rightarrow> if k' = k then Some v else None)"
  by (auto simp: setdefault_def map_of_append map_add_def split: option.splits)

lemma verdict_of_object:
  assumes "json_loads lib raw = Inr (JObj d)"
  shows "map_of (verdict_of_reply lib raw) (ustr ''score'')
           = Some (dict_get d (ustr ''score'') (JInt 0))"
    and "map_of (verdict_of_reply lib raw) (ustr ''needs_revision'')
           = Some (dict_get d (ustr ''needs_revision'') (JBool False))"
    and "map_of (verdict_of_reply lib raw) (ustr ''feedback_for_author'')
           = Some (dict_get d (ustr ''feedback_for_author'') (JStr []))"
    and "map_of (verdict_of_reply lib raw) (ustr ''safety_warnings'')
           = Some (dict_get d (ustr ''safety_warnings'') (JStr []))"
  using assms
  by (simp_all add: verdict_of_reply_def parse_judgement_def map_of_setdefault dict_get_def
      verdict_keys_distinct split: option.splits)

lemma verdict_not_object:
  assumes "\<forall>d. json_loads lib raw \<noteq> Inr (JObj d)"
  shows "verdict_of_reply lib raw = parse_failed_verdict"
proof (cases "json_loads lib raw")
  case (Inl e)
  then show ?thesis
    by (simp add: verdict_of_reply_def parse_judgement_def)
next
  case (Inr v)
  with assms show ?thesis
    by (cases v) (simp_all add: verdict_of_reply_def parse_judgement_def)
qed

lemma parse_failed_verdict_map:
  "map_of parse_failed_verdict (ustr ''score'') = Some (JInt 0)"
  "map_of parse_failed_verdict (ustr ''needs_revision'') = Some (JBool True)"
  "map_of parse_failed_verdict (ustr ''feedback_for_author'') = Some (JStr (concat
     [ustr ''Could not parse judge response. Recommend clearer plot with a specific conflict, '',
      ustr ''named characters, dialogue, simpler language, and an explicit moral.'']))"
  "map_of parse_failed_verdict (ustr ''safety_warnings'') = Some (JStr (ustr ''Parsing failed.''))"
  by (simp_all add: parse_failed_verdict_def verdict_keys_distinct)

lemma spec_verdict_parse_failed: "spec_verdict parse_failed_verdict"
  by (simp add: spec_verdict_def parse_failed_verdict_map)

lemma verdict_has_keys:
  "map_of (verdict_of_reply lib raw) (ustr ''score'') \<noteq> None"
  "map_of (verdict_of_reply lib raw) (ustr ''needs_revision'') \<noteq> None"
  "map_of (verdict_of_reply lib raw) (ustr ''feedback_for_author'') \<noteq> None"
  "map_of (verdict_of_reply lib raw) (ustr ''safety_warnings'') \<noteq> None"
proof -
  consider d where "json_loads lib raw = Inr (JObj d)" | "\<forall>d. json_loads lib raw \<noteq> Inr (JObj d)"
    by blast
  then have "map_of (verdict_of_reply lib raw) (ustr ''score'') \<noteq> None
     \<and> map_of (verdict_of_reply lib raw) (ustr ''needs_revision'') \<noteq> None
     \<and> map_of (verdict_of_reply lib raw) (ustr ''feedback_for_author'') \<noteq> None
     \<and> map_of (verdict_of_reply lib raw) (ustr ''safety_warnings'') \<noteq> None"
  proof cases
    case 1
    from verdict_of_object [OF 1] show ?thesis
      by simp
  next
    case 2
    from verdict_not_object [OF 2] parse_failed_verdict_map show ?thesis
      by simp
  qed
  then show "map_of (verdict_of_reply lib raw) (ustr ''score'') \<noteq> None"
    "map_of (verdict_of_reply lib raw) (ustr ''needs_revision'') \<noteq> None"
    "map_of (verdict_of_reply lib raw) (ustr ''feedback_for_author'') \<noteq> None"
    "map_of (verdict_of_reply lib raw) (ustr ''safety_warnings'') \<noteq> None"
    by simp_all
qed

lemma verdict_of_score_11:
  "verdict_of_reply sample_lib (ustr ''{\"score\": 11}'') =
     [(ustr ''score'', JInt 11), (ustr ''needs_revision'', JBool False),
      (ustr ''feedback_for_author'', JStr []), (ustr ''safety_warnings'', JStr [])]"
  by (simp add: verdict_of_reply_def parse_judgement_def sample_lib_def sample_loads_def good_reply_def weak_reply_def
      setdefault_def ustr_def)

lemma verdict_of_empty_object:
  "verdict_of_reply sample_lib (ustr ''{}'') =
     [(ustr ''score'', JInt 0), (ustr ''needs_revision'', JBool False),
      (ustr ''feedback_for_author'', JStr []), (ustr ''safety_warnings'', JStr [])]"
  by (simp add: verdict_of_reply_def parse_judgement_def sample_lib_def sample_loads_def good_reply_def weak_reply_def
      setdefault_def ustr_def)

text \<open>
  Claim C1, as stated: every answer that is not of the expected structure, malformed or
  non-conforming, gets the fixed fail-closed verdict. It fails for the answer \<open>{}\<close>:
  this is JSON, an object with none of the four fields, so \<open>json.loads\<close> and the calls
  of \<open>setdefault\<close> raise nothing, and \<open>judge_story\<close> returns the defaults, score 0,
  \<open>needs_revision\<close> false and empty texts, which is not the fail-closed verdict.
\<close>

theorem empty_object_counterexample:
  "json_loads sample_lib (ustr ''{}'') = Inr (JObj [])
   \<and> \<not> spec_verdict []
   \<and> fst (judge_story sample_lib sample_request sample_story (ustr ''2'')
        (sample_world [] [Text (ustr ''{}'')]))
     = Inr [(ustr ''score'', JInt 0), (ustr ''needs_revision'', JBool False),
            (ustr ''feedback_for_author'', JStr []), (ustr ''safety_warnings'', JStr [])]
   \<and> [(ustr ''score'', JInt 0), (ustr ''needs_revision'', JBool False),
       (ustr ''feedback_for_author'', JStr []), (ustr ''safety_warnings'', JStr [])]
     \<noteq> parse_failed_verdict
   \<and> \<not> truthy (dict_get [(ustr ''score'', JInt 0), (ustr ''needs_revision'', JBool False),
       (ustr ''feedback_for_author'', JStr []), (ustr ''safety_warnings'', JStr [])]
       (ustr ''needs_revision'') (JBool False))"
proof -
  have decoded: "json_loads sample_lib (ustr ''{}'') = Inr (JObj [])"
    by (simp add: sample_lib_def sample_loads_def good_reply_def weak_reply_def ustr_def)
  have returned: "fst (judge_story sample_lib sample_request sample_story (ustr ''2'')
        (sample_world [] [Text (ustr ''{}'')]))
     = Inr [(ustr ''score'', JInt 0), (ustr ''needs_revision'', JBool False),
            (ustr ''feedback_for_author'', JStr []), (ustr ''safety_warnings'', JStr [])]"
    by (simp add: judge_story_fst sample_world_def verdict_of_empty_object)
  from decoded returned show ?thesis
    by (simp add: spec_verdict_def parse_failed_verdict_def dict_get_def verdict_keys_distinct)
qed

text \<open>
  Claim C1, amended. For every answer on which \<open>json.loads\<close> raises, or which it
  decodes to a value that is not an object, \<open>judge_story\<close> returns the fixed fail-closed
  verdict: score 0, \<open>needs_revision\<close> true, the generic feedback that names conflict,
  named characters, dialogue, simpler language and moral, and the non-empty
  \<open>safety_warnings\<close> "Parsing failed."; the result is a value, not an exception. An
  answer that decodes to an object is never a parsing failure: \<open>judge_story\<close> returns the
  object itself, with each of the four fields it lacks set to its default 0, false, \<open>""\<close>
  or \<open>""\<close>, so its \<open>needs_revision\<close> and \<open>safety_warnings\<close> are those of the object,
  or false and empty.
\<close>

theorem parse_failure_fails_closed:
  assumes "replies w = Text raw # rest"
  shows "((case json_loads lib raw of Inl e \<Rightarrow> True | Inr v \<Rightarrow> \<not> is_dict v) \<longrightarrow>
            fst (judge_story lib user_request story reading_level w) = Inr parse_failed_verdict)
       \<and> (json_loads lib raw = Inr (JObj d) \<longrightarrow>
            fst (judge_story lib user_request story reading_level w) =
              Inr (setdefault
                    (setdefault
                      (setdefault
                        (setdefault d (ustr ''score'') (JInt 0))
                        (ustr ''needs_revision'') (JBool False))
                      (ustr ''feedback_for_author'') (JStr []))
                    (ustr ''safety_warnings'') (JStr []))
          \<and> dict_get (verdict_of_reply lib raw) (ustr ''score'') JNull
              = dict_get d (ustr ''score'') (JInt 0)
          \<and> dict_get (verdict_of_reply lib raw) (ustr ''needs_revision'') JNull
              = dict_get d (ustr ''needs_revision'') (JBool False)
          \<and> dict_get (verdict_of_reply lib raw) (ustr ''feedback_for_author'') JNull
              = dict_get d (ustr ''feedback_for_author'') (JStr [])
          \<and> dict_get (verdict_of_reply lib raw) (ustr ''safety_warnings'') JNull
              = dict_get d (ustr ''safety_warnings'') (JStr []))
       \<and> fst (judge_story lib user_request story reading_level w)
           = Inr (verdict_of_reply lib raw)
       \<and> dict_get parse_failed_verdict (ustr ''score'') JNull = JInt 0
       \<and> dict_get parse_failed_verdict (ustr ''needs_revision'') JNull = JBool True
       \<and> dict_get parse_failed_verdict (ustr ''feedback_for_author'') JNull = JStr (concat
           [ustr ''Could not parse judge response. Recommend clearer plot with a specific conflict, '',
            ustr ''named characters, dialogue, simpler language, and an explicit moral.''])
       \<and> dict_get parse_failed_verdict (ustr ''safety_warnings'') JNull
           = JStr (ustr ''Parsing failed.'')
       \<and> ustr ''Parsing failed.'' \<noteq> []"
proof -
  from assms have returned: "fst (judge_story lib user_request story reading_level w)
      = Inr (verdict_of_reply lib raw)"
    by (simp add: judge_story_fst)
  have failed: "fst (judge_story lib user_request story reading_level w)
      = Inr parse_failed_verdict"
    if "case json_loads lib raw of Inl e \<Rightarrow> True | Inr v \<Rightarrow> \<not> is_dict v"
    using returned parse_judgement_raises [OF that] by simp
  have completed: "fst (judge_story lib user_request story reading_level w) =
              Inr (setdefault
                    (setdefault
                      (setdefault
                        (setdefault d (ustr ''score'') (JInt 0))
                        (ustr ''needs_revision'') (JBool False))
                      (ustr ''feedback_for_author'') (JStr []))
                    (ustr ''safety_warnings'') (JStr []))"
    if "json_loads lib raw = Inr (JObj d)"
    using returned that by (simp add: verdict_of_reply_def parse_judgement_def)
  have fields: "dict_get (verdict_of_reply lib raw) (ustr ''score'') JNull
              = dict_get d (ustr ''score'') (JInt 0)"
    "dict_get (verdict_of_reply lib raw) (ustr ''needs_revision'') JNull
              = dict_get d (ustr ''needs_revision'') (JBool False)"
    "dict_get (verdict_of_reply lib raw) (ustr ''feedback_for_author'') JNull
              = dict_get d (ustr ''feedback_for_author'') (JStr [])"
    "dict_get (verdict_of_reply lib raw) (ustr ''safety_warnings'') JNull
              = dict_get d (ustr ''safety_warnings'') (JStr [])"
    if "json_loads lib raw = Inr (JObj d)"
    using verdict_of_object [OF that]
    by (simp_all add: dict_get_def [of "verdict_of_reply lib raw"])
  have nonempty: "ustr ''Parsing failed.'' \<noteq> []"
    by (simp add: ustr_def)
  from returned failed completed fields parse_failed_verdict_fields nonempty show ?thesis
    by blast
qed

theorem parse_failure_fails_closed_witness:
  "replies (sample_world [] [Text (ustr ''[1, 2]'')]) = Text (ustr ''[1, 2]'') # []
   \<and> json_loads sample_lib (ustr ''[1, 2]'') = Inr (JArr [JInt 1, JInt 2])
   \<and> \<not> is_dict (JArr [JInt 1, JInt 2])
   \<and> fst (judge_story sample_lib sample_request sample_story (ustr ''2'')
        (sample_world [] [Text (ustr ''[1, 2]'')])) = Inr parse_failed_verdict
   \<and> replies (sample_world [] [Text (ustr ''Sorry, I cannot rate this.'')])
       = Text (ustr ''Sorry, I cannot rate this.'') # []
   \<and> json_loads sample_lib (ustr ''Sorry, I cannot rate this.'') = Inl JSONDecodeError
   \<and> fst (judge_story sample_lib sample_request sample_story (ustr ''2'')
        (sample_world [] [Text (ustr ''Sorry, I cannot rate this.'')])) = Inr parse_failed_verdict
   \<and> replies (sample_world [] [Text (ustr ''{\"score\": 11}'')])
       = Text (ustr ''{\"score\": 11}'') # []
   \<and> json_loads sample_lib (ustr ''{\"score\": 11}'') = Inr (JObj [(ustr ''score'', JInt 11)])
   \<and> fst (judge_story sample_lib sample_request sample_story (ustr ''2'')
        (sample_world [] [Text (ustr ''{\"score\": 11}'')]))
       = Inr [(ustr ''score'', JInt 11), (ustr ''needs_revision'', JBool False),
              (ustr ''feedback_for_author'', JStr []), (ustr ''safety_warnings'', JStr [])]"
proof -
  have h1: "replies (sample_world [] [Text (ustr ''[1, 2]'')]) = Text (ustr ''[1, 2]'') # []"
    by (simp add: sample_world_def)
  have d1: "json_loads sample_lib (ustr ''[1, 2]'') = Inr (JArr [JInt 1, JInt 2])"
    by (simp add: sample_lib_def sample_loads_def good_reply_def weak_reply_def ustr_def)
  then have c1: "case json_loads sample_lib (ustr ''[1, 2]'') of
      Inl e \<Rightarrow> True | Inr v \<Rightarrow> \<not> is_dict v"
    by simp
  have h2: "replies (sample_world [] [Text (ustr ''Sorry, I cannot rate this.'')])
       = Text (ustr ''Sorry, I cannot rate this.'') # []"
    by (simp add: sample_world_def)
  have d2: "json_loads sample_lib (ustr ''Sorry, I cannot rate this.'') = Inl JSONDecodeError"
    by (simp add: sample_lib_def sample_loads_def good_reply_def weak_reply_def ustr_def)
  then have c2: "case json_loads sample_lib (ustr ''Sorry, I cannot rate this.'') of
      Inl e \<Rightarrow> True | Inr v \<Rightarrow> \<not> is_dict v"
    by simp
  have h3: "replies (sample_world [] [Text (ustr ''{\"score\": 11}'')])
       = Text (ustr ''{\"score\": 11}'') # []"
    by (simp add: sample_world_def)
  have d3: "json_loads sample_lib (ustr ''{\"score\": 11}'')
      = Inr (JObj [(ustr ''score'', JInt 11)])"
    by (simp add: sample_lib_def sample_loads_def good_reply_def weak_reply_def ustr_def)
  have filled: "setdefault
        (setdefault
          (setdefault
            (setdefault [(ustr ''score'', JInt 11)] (ustr ''score'') (JInt 0))
            (ustr ''needs_revision'') (JBool False))
          (ustr ''feedback_for_author'') (JStr []))
        (ustr ''safety_warnings'') (JStr [])
      = [(ustr ''score'', JInt 11), (ustr ''needs_revision'', JBool False),
         (ustr ''feedback_for_author'', JStr []), (ustr ''safety_warnings'', JStr [])]"
    by (simp add: setdefault_def verdict_keys_distinct)
  from parse_failure_fails_closed [OF h1, where lib = sample_lib and user_request = sample_request
      and story = sample_story and reading_level = "ustr ''2''"] c1
  have r1: "fst (judge_story sample_lib sample_request sample_story (ustr ''2'')
        (sample_world [] [Text (ustr ''[1, 2]'')])) = Inr parse_failed_verdict"
    by blast
  from parse_failure_fails_closed [OF h2, where lib = sample_lib and user_request = sample_request
      and story = sample_story and reading_level = "ustr ''2''"] c2
  have r2: "fst (judge_story sample_lib sample_request sample_story (ustr ''2'')
        (sample_world [] [Text (ustr ''Sorry, I cannot rate this.'')])) = Inr parse_failed_verdict"
    by blast
  from parse_failure_fails_closed [OF h3, where lib = sample_lib and user_request = sample_request
      and story = sample_story and reading_level = "ustr ''2''"
      and d = "[(ustr ''score'', JInt 11)]"] d3 filled
  have r3: "fst (judge_story sample_lib sample_request sample_story (ustr ''2'')
        (sample_world [] [Text (ustr ''{\"score\": 11}'')]))
       = Inr [(ustr ''score'', JInt 11), (ustr ''needs_revision'', JBool False),
              (ustr ''feedback_for_author'', JStr []), (ustr ''safety_warnings'', JStr [])]"
    by simp
  from h1 d1 r1 h2 d2 r2 h3 d3 r3 show ?thesis
    by simp
qed

text \<open>
  Claim C9, as stated: every verdict of \<open>judge_story\<close> has a score in \<open>[0,10]\<close>, a
  boolean \<open>needs_revision\<close> and two texts. It fails for the answer \<open>{"score": 11}\<close>:
  the score 11 is returned as decoded.
\<close>

theorem score_unchecked_counterexample:
  "fst (judge_story sample_lib sample_request sample_story (ustr ''2'')
      (sample_world [] [Text (ustr ''{\"score\": 11}'')]))
     = Inr [(ustr ''score'', JInt 11), (ustr ''needs_revision'', JBool False),
            (ustr ''feedback_for_author'', JStr []), (ustr ''safety_warnings'', JStr [])]
   \<and> \<not> spec_verdict [(ustr ''score'', JInt 11), (ustr ''needs_revision'', JBool False),
            (ustr ''feedback_for_author'', JStr []), (ustr ''safety_warnings'', JStr [])]"
  by (simp add: judge_story_fst sample_world_def verdict_of_score_11 spec_verdict_def)

text \<open>
  Claim C9, amended. Every verdict of \<open>judge_story\<close> has the four fields \<open>score\<close>,
  \<open>needs_revision\<close>, \<open>feedback_for_author\<close> and \<open>safety_warnings\<close>. When the answer
  decodes to an object, a field the object holds has the decoded value, of whatever type and
  range, and a field it lacks has the default 0, false, \<open>""\<close> or \<open>""\<close>. Otherwise the
  verdict is the fixed one, which is a Verdict as the specification describes it.
\<close>

theorem verdict_fields:
  assumes "replies w = Text raw # rest"
  shows "fst (judge_story lib user_request story reading_level w) = Inr (verdict_of_reply lib raw)
       \<and> map_of (verdict_of_reply lib raw) (ustr ''score'') \<noteq> None
       \<and> map_of (verdict_of_reply lib raw) (ustr ''needs_revision'') \<noteq> None
       \<and> map_of (verdict_of_reply lib raw) (ustr ''feedback_for_author'') \<noteq> None
       \<and> map_of (verdict_of_reply lib raw) (ustr ''safety_warnings'') \<noteq> None
       \<and> (json_loads lib raw = Inr (JObj d) \<longrightarrow>
            map_of (verdict_of_reply lib raw) (ustr ''score'')
              = Some (dict_get d (ustr ''score'') (JInt 0))
          \<and> map_of (verdict_of_reply lib raw) (ustr ''needs_revision'')
              = Some (dict_get d (ustr ''needs_revision'') (JBool False))
          \<and> map_of (verdict_of_reply lib raw) (ustr ''feedback_for_author'')
              = Some (dict_get d (ustr ''feedback_for_author'') (JStr []))
          \<and> map_of (verdict_of_reply lib raw) (ustr ''safety_warnings'')
              = Some (dict_get d (ustr ''safety_warnings'') (JStr [])))
       \<and> ((\<forall>d'. json_loads lib raw \<noteq> Inr (JObj d')) \<longrightarrow>
            verdict_of_reply lib raw = parse_failed_verdict)
       \<and> spec_verdict parse_failed_verdict"
proof -
  from assms have "fst (judge_story lib user_request story reading_level w)
      = Inr (verdict_of_reply lib raw)"
    by (simp add: judge_story_fst)
  with verdict_has_keys [of lib raw] verdict_of_object [of lib raw d] verdict_not_object [of lib raw]
    spec_verdict_parse_failed
  show ?thesis
    by blast
qed

theorem verdict_fields_witness:
  "replies (sample_world [] [Text (ustr ''{\"score\": 11}'')]) = Text (ustr ''{\"score\": 11}'') # []
   \<and> json_loads sample_lib (ustr ''{\"score\": 11}'') = Inr (JObj [(ustr ''score'', JInt 11)])
   \<and> map_of (verdict_of_reply sample_lib (ustr ''{\"score\": 11}'')) (ustr ''score'') = Some (JInt 11)
   \<and> map_of (verdict_of_reply sample_lib (ustr ''{\"score\": 11}'')) (ustr ''needs_revision'')
       = Some (JBool False)"
proof -
  have h1: "replies (sample_world [] [Text (ustr ''{\"score\": 11}'')])
      = Text (ustr ''{\"score\": 11}'') # []"
    by (simp add: sample_world_def)
  have h2: "json_loads sample_lib (ustr ''{\"score\": 11}'') = Inr (JObj [(ustr ''score'', JInt 11)])"
    by (simp add: sample_lib_def sample_loads_def good_reply_def weak_reply_def ustr_def)
  from verdict_fields [OF h1, of sample_lib sample_request sample_story "ustr ''2''"
      "[(ustr ''score'', JInt 11)]"] h1 h2
  show ?thesis
    by (simp add: dict_get_def verdict_keys_distinct)
qed

section \<open>Properties of the reading level helpers\<close>

text \<open>
  Two strings that open with different literals of the same length differ; this tells the
  instruction texts of the levels apart without comparing them character by character.
\<close>

lemma ustr_append_eq:
  "length a = length b \<Longrightarrow> ustr a @ r = ustr b @ r' \<longleftrightarrow> a = b \<and> r = r'"
  by (auto simp: ustr_def inj_map_eq_map inj_of_char)

lemma label_lookup:
  "map_of mapping level =
     (if level = ustr ''1'' then Some level_1_label
      else if level = ustr ''2'' then Some level_2_label
      else if level = ustr ''3'' then Some level_3_label else None)"
  by (simp add: mapping_def)

lemma label_4: "get_reading_level_label (ustr ''4'') = get_reading_level_label (ustr ''2'')"
  by (simp add: get_reading_level_label_def label_lookup)

lemma style_4_not_2:
  "get_spoken_style_instructions (ustr ''4'') @ r \<noteq> get_spoken_style_instructions (ustr ''2'') @ r'"
  by (simp add: get_spoken_style_instructions_def ustr_append_eq)

lemma length_4_not_2:
  "get_length_instructions (ustr ''4'') \<noteq> get_length_instructions (ustr ''2'')"
  by (simp add: get_length_instructions_def ustr_append_eq)

lemma call_chat_content:
  "calls (snd (call_chat ((r, c) # ms) mt tp w)) = calls (snd (call_chat ((r', c') # ms') mt' tp' w))
   \<Longrightarrow> c = c'"
  by (simp add: call_chat_def Let_def split: list.splits reply.splits)

lemma prompt_4_not_2:
  "calls (snd (generate_story user_request (ustr ''4'') w))
   \<noteq> calls (snd (generate_story user_request (ustr ''2'') w))"
proof
  assume "calls (snd (generate_story user_request (ustr ''4'') w))
    = calls (snd (generate_story user_request (ustr ''2'') w))"
  from call_chat_content [OF this [unfolded generate_story_def Let_def]] show False
    by (simp only: concat.simps label_4 same_append_eq style_4_not_2)
qed

text \<open>
  Claim C10, as stated: for a level outside \<open>"1"\<close>, \<open>"2"\<close>, \<open>"3"\<close> generation,
  evaluation and revision fall back to the intermediate level. It fails for the level
  \<open>"4"\<close>: the spoken-style and the length instructions take their last branch, the text
  of level 3, so the request that \<open>generate_story\<close> sends is not the one it sends for
  level \<open>"2"\<close>.
\<close>

theorem unknown_level_counterexample:
  "ustr ''4'' \<notin> {ustr ''1'', ustr ''2'', ustr ''3''}
   \<and> get_spoken_style_instructions (ustr ''4'') = get_spoken_style_instructions (ustr ''3'')
   \<and> get_spoken_style_instructions (ustr ''4'') \<noteq> get_spoken_style_instructions (ustr ''2'')
   \<and> get_length_instructions (ustr ''4'') = get_length_instructions (ustr ''3'')
   \<and> get_length_instructions (ustr ''4'') \<noteq> get_length_instructions (ustr ''2'')
   \<and> calls (snd (generate_story sample_request (ustr ''4'') (sample_world [] [])))
     \<noteq> calls (snd (generate_story sample_request (ustr ''2'') (sample_world [] [])))"
proof -
  have style: "get_spoken_style_instructions (ustr ''4'') = get_spoken_style_instructions (ustr ''3'')"
    by (simp add: get_spoken_style_instructions_def)
  have len: "get_length_instructions (ustr ''4'') = get_length_instructions (ustr ''3'')"
    by (simp add: get_length_instructions_def)
  from style_4_not_2 [of "[]" "[]"]
  have style': "get_spoken_style_instructions (ustr ''4'') \<noteq> get_spoken_style_instructions (ustr ''2'')"
    by simp
  from style style' len length_4_not_2 prompt_4_not_2 show ?thesis
    by simp
qed

text \<open>
  Claim C10, amended. For every level outside \<open>"1"\<close>, \<open>"2"\<close>, \<open>"3"\<close>,
  \<open>get_reading_level_label\<close> returns the label of level 2 (ages 7 to 8), the same as for
  \<open>"2"\<close>, instead of failing.
\<close>

theorem unknown_level_label:
  assumes "level \<notin> {ustr ''1'', ustr ''2'', ustr ''3''}"
  shows "get_reading_level_label level = level_2_label
       \<and> get_reading_level_label level = get_reading_level_label (ustr ''2'')"
  using assms by (simp add: get_reading_level_label_def label_lookup)

theorem unknown_level_label_witness:
  "ustr ''4'' \<notin> {ustr ''1'', ustr ''2'', ustr ''3''}
   \<and> get_reading_level_label (ustr ''4'') = level_2_label"
proof -
  have h: "ustr ''4'' \<notin> {ustr ''1'', ustr ''2'', ustr ''3''}"
    by simp
  from unknown_level_label [OF h] h show ?thesis
    by simp
qed

end
